theory Spec2Isabelle
  imports Complex_Main
begin

section \<open>Python values shared by the ingestion service and the ETL pipeline\<close>

text \<open>
  A decoded JSON document, as \<^verbatim>\<open>json.loads\<close> returns it: \<^verbatim>\<open>None\<close>, a bool, a number,
  a string, a list or a dict (an association list; \<open>map_of\<close> reads it).
  Numbers are the reals that the doubles denote; the arithmetic on them that rounds or
  overflows is a parameter of the model.
\<close>

datatype json =
    JNull
  | JBool bool
  | JNum real
  | JStr string
  | JArr "json list"
  | JObj "(string \<times> json) list"

datatype exn =
    JSONDecodeError
  | TypeError
  | AttributeError
  | KeyError
  | ValueError
  | OverflowError
  | DatabaseError

type_synonym datetime = int

definition bnd :: "exn + 'a \<Rightarrow> ('a \<Rightarrow> exn + 'b) \<Rightarrow> exn + 'b" where
  "bnd m f = (case m of Inl e \<Rightarrow> Inl e | Inr v \<Rightarrow> f v)"

fun is_infix :: "string \<Rightarrow> string \<Rightarrow> bool" where
  "is_infix f [] = (f = [])"
| "is_infix f (c # cs) = (take (length f) (c # cs) = f \<or> is_infix f cs)"

text \<open>\<^verbatim>\<open>field in data\<close>: key membership for a dict, element membership for a list,
  substring test for a string, \<^verbatim>\<open>TypeError\<close> for anything that is not a container.\<close>

fun py_in :: "string \<Rightarrow> json \<Rightarrow> exn + bool" where
  "py_in f (JObj d) = Inr (f \<in> set (map fst d))"
| "py_in f (JArr xs) = Inr (JStr f \<in> set xs)"
| "py_in f (JStr s) = Inr (is_infix f s)"
| "py_in f JNull = Inl TypeError"
| "py_in f (JBool b) = Inl TypeError"
| "py_in f (JNum r) = Inl TypeError"

text \<open>\<^verbatim>\<open>all(field in data for field in fields)\<close>: the generator stops at the first
  \<^verbatim>\<open>False\<close> and lets the first exception through.\<close>

fun all_in :: "string list \<Rightarrow> json \<Rightarrow> exn + bool" where
  "all_in [] data = Inr True"
| "all_in (f # fs) data =
     (case py_in f data of
        Inl e \<Rightarrow> Inl e
      | Inr False \<Rightarrow> Inr False
      | Inr True \<Rightarrow> all_in fs data)"

text \<open>\<^verbatim>\<open>data[key]\<close> with a string key.\<close>

fun py_getitem :: "json \<Rightarrow> string \<Rightarrow> exn + json" where
  "py_getitem (JObj d) k = (case map_of d k of Some v \<Rightarrow> Inr v | None \<Rightarrow> Inl KeyError)"
| "py_getitem (JArr xs) k = Inl TypeError"
| "py_getitem (JStr s) k = Inl TypeError"
| "py_getitem JNull k = Inl TypeError"
| "py_getitem (JBool b) k = Inl TypeError"
| "py_getitem (JNum r) k = Inl TypeError"

text \<open>\<^verbatim>\<open>data.get(key, default)\<close>: only a dict has the method.\<close>

fun py_get :: "json \<Rightarrow> string \<Rightarrow> json \<Rightarrow> exn + json" where
  "py_get (JObj d) k dflt = Inr (case map_of d k of Some v \<Rightarrow> v | None \<Rightarrow> dflt)"
| "py_get (JArr xs) k dflt = Inl AttributeError"
| "py_get (JStr s) k dflt = Inl AttributeError"
| "py_get JNull k dflt = Inl AttributeError"
| "py_get (JBool b) k dflt = Inl AttributeError"
| "py_get (JNum r) k dflt = Inl AttributeError"

text \<open>\<^verbatim>\<open>s.replace(old, new)\<close>: occurrences are replaced left to right without
  overlap; \<open>k\<close> counts the characters of a matched occurrence still to skip.\<close>

fun replace_from :: "string \<Rightarrow> string \<Rightarrow> nat \<Rightarrow> string \<Rightarrow> string" where
  "replace_from old new k [] = []"
| "replace_from old new k (c # cs) =
     (if 0 < k then replace_from old new (k - 1) cs
      else if take (length old) (c # cs) = old
        then new @ replace_from old new (length old - 1) cs
        else c # replace_from old new 0 cs)"

definition py_replace :: "string \<Rightarrow> string \<Rightarrow> string \<Rightarrow> string" where
  "py_replace old new s =
     (if old = [] then new @ concat (map (\<lambda>c. c # new) s) else replace_from old new 0 s)"

text \<open>Truth value of a Python object.\<close>

fun truthy :: "json \<Rightarrow> bool" where
  "truthy JNull = False"
| "truthy (JBool b) = b"
| "truthy (JNum r) = (r \<noteq> 0)"
| "truthy (JStr s) = (s \<noteq> [])"
| "truthy (JArr xs) = (xs \<noteq> [])"
| "truthy (JObj d) = (d \<noteq> [])"

text \<open>The value of an operand of \<^verbatim>\<open>**\<close>, \<^verbatim>\<open>+\<close> or \<^verbatim>\<open>/\<close>: a number or a bool.\<close>

fun num_of :: "json \<Rightarrow> exn + real" where
  "num_of (JNum r) = Inr r"
| "num_of (JBool b) = Inr (if b then 1 else 0)"
| "num_of JNull = Inl TypeError"
| "num_of (JStr s) = Inl TypeError"
| "num_of (JArr xs) = Inl TypeError"
| "num_of (JObj d) = Inl TypeError"


section \<open>Data ingestion service (data\_ingestion\_service.py)\<close>

subsection \<open>Configuration and data structures\<close>

text \<open>\<^verbatim>\<open>SYSTEM_CONFIG\<close>.\<close>

definition buffer_size :: int where "buffer_size = 1000"
definition batch_insert_size :: nat where "batch_insert_size = 50"
definition max_retries :: nat where "max_retries = 3"

text \<open>The dataclass checks no field type: a field holds whatever the payload had.\<close>

record SensorReading =
  device_id :: json
  timestamp :: datetime
  location :: json
  equipment_type :: json
  sensors :: json
  fault_detected :: json
  source :: string

record DatabaseStats =
  total_records :: int
  records_today :: int
  last_insert :: "datetime option"
  failed_inserts :: int
  active_devices :: int

text \<open>\<^verbatim>\<open>queue.Queue(maxsize)\<close>, seen by one thread at a time. A \<open>maxsize\<close> of zero or
  less means no bound, as in the standard library.\<close>

record 'a Queue =
  maxsize :: int
  items :: "'a list"

definition qsize :: "'a Queue \<Rightarrow> nat" where
  "qsize q = length (items q)"

definition queue_full :: "'a Queue \<Rightarrow> bool" where
  "queue_full q = (0 < maxsize q \<and> maxsize q \<le> int (qsize q))"

definition queue_empty :: "'a Queue \<Rightarrow> bool" where
  "queue_empty q = (qsize q = 0)"

text \<open>\<^verbatim>\<open>put\<close> is only called after \<^verbatim>\<open>full()\<close> answered no, so it never waits.\<close>

definition queue_put :: "'a Queue \<Rightarrow> 'a \<Rightarrow> 'a Queue" where
  "queue_put q x = q\<lparr>items := items q @ [x]\<rparr>"

definition queue_get :: "'a Queue \<Rightarrow> ('a \<times> 'a Queue) option" where
  "queue_get q = (case items q of [] \<Rightarrow> None | x # xs \<Rightarrow> Some (x, q\<lparr>items := xs\<rparr>))"

subsection \<open>The database connection\<close>

text \<open>
  The Oracle connection is outside the repository. It is modelled as a transactional
  store: \<open>working\<close> is what the open transaction sees, \<open>durable\<close> what was committed.
  \<open>sp_failures\<close> scripts the store's transient failures: that many of the next calls of
  the stored procedure \<^verbatim>\<open>SP_INSERT_MEDICAO\<close> raise. \<open>sp_calls\<close> and \<open>rollbacks\<close> count
  the calls made, so that theorems can speak about attempts.
\<close>

record medicao =
  p_id_sensor :: string
  p_id_maquina :: string
  p_temperatura :: json
  p_pressao :: json
  p_vibracao :: "real option"
  p_humidade :: json
  p_vibr_x :: json
  p_vibr_y :: json
  p_vibr_z :: json
  p_gyro_x :: json
  p_gyro_y :: json
  p_gyro_z :: json
  p_flag_falha :: string
  p_fonte :: string

record tables =
  T_EQUIPAMENTO :: "(string \<times> string \<times> string) list"
  T_SENSOR :: "(string \<times> string \<times> string) list"
  T_MEDICAO :: "medicao list"

record db_conn =
  working :: tables
  durable :: tables
  sp_failures :: nat
  sp_calls :: nat
  rollbacks :: nat

definition db_commit :: "db_conn \<Rightarrow> db_conn" where
  "db_commit c = c\<lparr>durable := working c\<rparr>"

definition db_rollback :: "db_conn \<Rightarrow> db_conn" where
  "db_rollback c = c\<lparr>working := durable c, rollbacks := rollbacks c + 1\<rparr>"

text \<open>Database calls run in the connection's state and may raise: the result is the
  exception or the value, with the state the call left.\<close>

type_synonym 'a dbm = "db_conn \<Rightarrow> (exn + 'a) \<times> db_conn"

definition dbind :: "'a dbm \<Rightarrow> ('a \<Rightarrow> 'b dbm) \<Rightarrow> 'b dbm" where
  "dbind m f c = (case m c of (Inl e, c') \<Rightarrow> (Inl e, c') | (Inr v, c') \<Rightarrow> f v c')"

definition dlift :: "exn + 'a \<Rightarrow> 'a dbm" where
  "dlift r c = (r, c)"

text \<open>\<^verbatim>\<open>cursor.callproc('SP_INSERT_MEDICAO', ...)\<close>: counted; raises while scripted failures
  remain, appends the row otherwise.\<close>

definition db_callproc :: "medicao \<Rightarrow> unit dbm" where
  "db_callproc row c =
     (if 0 < sp_failures c
      then (Inl DatabaseError, c\<lparr>sp_failures := sp_failures c - 1, sp_calls := sp_calls c + 1\<rparr>)
      else (Inr (), c\<lparr>working := (working c)\<lparr>T_MEDICAO := T_MEDICAO (working c) @ [row]\<rparr>,
                       sp_calls := sp_calls c + 1\<rparr>))"

text \<open>\<^verbatim>\<open>SELECT COUNT(*) FROM T_EQUIPAMENTO WHERE id_maquina = :1\<close> and the same on
  \<^verbatim>\<open>T_SENSOR\<close>; the \<^verbatim>\<open>INSERT\<close>s.\<close>

definition count_equipamento :: "string \<Rightarrow> nat dbm" where
  "count_equipamento k c =
     (Inr (length (filter (\<lambda>(i, t, l). i = k) (T_EQUIPAMENTO (working c)))), c)"

definition count_sensor :: "string \<Rightarrow> nat dbm" where
  "count_sensor k c =
     (Inr (length (filter (\<lambda>(i, t, u). i = k) (T_SENSOR (working c)))), c)"

definition insert_equipamento :: "string \<times> string \<times> string \<Rightarrow> unit dbm" where
  "insert_equipamento row c =
     (Inr (), c\<lparr>working := (working c)\<lparr>T_EQUIPAMENTO := T_EQUIPAMENTO (working c) @ [row]\<rparr>\<rparr>)"

definition insert_sensor :: "string \<times> string \<times> string \<Rightarrow> unit dbm" where
  "insert_sensor row c =
     (Inr (), c\<lparr>working := (working c)\<lparr>T_SENSOR := T_SENSOR (working c) @ [row]\<rparr>\<rparr>)"

subsection \<open>The service\<close>

datatype level = DEBUG | INFO | WARNING | ERROR

record service =
  data_queue :: "SensorReading Queue"
  stats :: DatabaseStats
  is_running :: bool
  db_connection :: "db_conn option"
  logged :: "(level \<times> string) list"

text \<open>\<^verbatim>\<open>DataIngestionService.__init__\<close>.\<close>

definition init_service :: service where
  "init_service =
     \<lparr>data_queue = \<lparr>maxsize = buffer_size, items = []\<rparr>,
      stats = \<lparr>total_records = 0, records_today = 0, last_insert = None,
               failed_inserts = 0, active_devices = 0\<rparr>,
      is_running = False,
      db_connection = None,
      logged = [(INFO, ''Data Ingestion Service inicializado'')]\<rparr>"

definition log_line :: "level \<Rightarrow> string \<Rightarrow> service \<Rightarrow> service" where
  "log_line lv msg s = s\<lparr>logged := logged s @ [(lv, msg)]\<rparr>"

text \<open>The library calls of the service: \<^verbatim>\<open>json.loads\<close> (\<open>None\<close> when it raises
  \<^verbatim>\<open>JSONDecodeError\<close>), \<^verbatim>\<open>datetime.fromisoformat\<close> and \<^verbatim>\<open>datetime.fromtimestamp\<close>
  (\<open>None\<close> when they raise), and the arithmetic of line 313,
  \<^verbatim>\<open>(x**2 + y**2 + z**2)**0.5\<close>, which Python computes in doubles (\<open>None\<close> when it
  raises \<^verbatim>\<open>OverflowError\<close>).\<close>

record pylib =
  json_loads :: "string \<Rightarrow> json option"
  fromisoformat :: "string \<Rightarrow> datetime option"
  fromtimestamp :: "real \<Rightarrow> datetime option"
  magnitude :: "real \<Rightarrow> real \<Rightarrow> real \<Rightarrow> real option"

definition required_fields :: "string list" where
  "required_fields = [''device_id'', ''timestamp'', ''sensors'']"

text \<open>Lines 243-246: a string is read as ISO-8601, anything else is divided by 1000.\<close>

fun convert_timestamp :: "pylib \<Rightarrow> json \<Rightarrow> exn + datetime" where
  "convert_timestamp L (JStr s) =
     (case fromisoformat L (py_replace ''Z'' ''+00:00'' s) of
        None \<Rightarrow> Inl ValueError | Some t \<Rightarrow> Inr t)"
| "convert_timestamp L v =
     bnd (num_of v) (\<lambda>r.
       case fromtimestamp L (r / 1000) of None \<Rightarrow> Inl ValueError | Some t \<Rightarrow> Inr t)"

text \<open>Lines 248-256: the reading built from the payload.\<close>

definition make_reading :: "json \<Rightarrow> datetime \<Rightarrow> exn + SensorReading" where
  "make_reading data t =
     bnd (py_getitem data ''device_id'') (\<lambda>dev.
     bnd (py_get data ''location'' (JStr ''Unknown'')) (\<lambda>loc.
     bnd (py_get data ''equipment_type'' (JStr ''Unknown'')) (\<lambda>eq.
     bnd (py_getitem data ''sensors'') (\<lambda>sens.
     bnd (py_get data ''fault_detected'' (JBool False)) (\<lambda>fault.
       Inr \<lparr>device_id = dev, timestamp = t, location = loc, equipment_type = eq,
            sensors = sens, fault_detected = fault, source = ''MQTT''\<rparr>)))))"

text \<open>Lines 258-263: the enqueue path.\<close>

definition enqueue :: "service \<Rightarrow> SensorReading \<Rightarrow> service" where
  "enqueue s r =
     (if \<not> queue_full (data_queue s)
      then log_line DEBUG ''Dados adicionados a fila''
             (s\<lparr>data_queue := queue_put (data_queue s) r\<rparr>)
      else log_line WARNING ''Fila de dados cheia! Dados podem ser perdidos'' s)"

text \<open>The body of the \<^verbatim>\<open>try\<close> block of \<^verbatim>\<open>process_sensor_data\<close>.\<close>

definition decode_and_enqueue :: "pylib \<Rightarrow> service \<Rightarrow> string \<Rightarrow> exn + service" where
  "decode_and_enqueue L s payload =
     (case json_loads L payload of
        None \<Rightarrow> Inl JSONDecodeError
      | Some data \<Rightarrow>
          bnd (all_in required_fields data) (\<lambda>complete.
            if \<not> complete
            then Inr (log_line WARNING ''Dados incompletos recebidos'' s)
            else
              bnd (py_getitem data ''timestamp'') (\<lambda>ts.
              bnd (convert_timestamp L ts) (\<lambda>t.
              bnd (make_reading data t) (\<lambda>r. Inr (enqueue s r))))))"

definition process_sensor_data :: "pylib \<Rightarrow> service \<Rightarrow> string \<Rightarrow> service" where
  "process_sensor_data L s payload =
     (case decode_and_enqueue L s payload of
        Inr s' \<Rightarrow> s'
      | Inl JSONDecodeError \<Rightarrow> log_line ERROR ''Erro ao decodificar JSON'' s
      | Inl e \<Rightarrow> log_line ERROR ''Erro ao processar dados de sensor'' s)"

text \<open>\<^verbatim>\<open>on_mqtt_message\<close> for a run of sensor-data messages.\<close>

fun process_all :: "pylib \<Rightarrow> service \<Rightarrow> string list \<Rightarrow> service" where
  "process_all L s [] = s"
| "process_all L s (p # ps) = process_all L (process_sensor_data L s p) ps"

subsection \<open>Persistence: insert\_sensor\_data and the batch loop\<close>

text \<open>
  The methods below read and write the service: its connection, its statistics and its
  log. A method may raise; the result is the exception or the value, with the service as
  the method left it.
\<close>

type_synonym 'a svm = "service \<Rightarrow> (exn + 'a) \<times> service"

definition sbind :: "'a svm \<Rightarrow> ('a \<Rightarrow> 'b svm) \<Rightarrow> 'b svm" where
  "sbind m f s = (case m s of (Inl e, s') \<Rightarrow> (Inl e, s') | (Inr v, s') \<Rightarrow> f v s')"

definition slift :: "exn + 'a \<Rightarrow> 'a svm" where
  "slift r s = (r, s)"

definition slog :: "level \<Rightarrow> string \<Rightarrow> unit svm" where
  "slog lv msg s = (Inr (), log_line lv msg s)"

text \<open>A call on \<^verbatim>\<open>self.db_connection\<close>: without a connection the attribute access
  raises.\<close>

definition on_connection :: "'a dbm \<Rightarrow> 'a svm" where
  "on_connection f s =
     (case db_connection s of
        None \<Rightarrow> (Inl AttributeError, s)
      | Some c \<Rightarrow> (case f c of (r, c') \<Rightarrow> (r, s\<lparr>db_connection := Some c'\<rparr>)))"

text \<open>\<^verbatim>\<open>self.db_connection.cursor()\<close>.\<close>

definition db_cursor :: "unit dbm" where
  "db_cursor c = (Inr (), c)"

text \<open>The receiver of \<^verbatim>\<open>.replace\<close> must be a string.\<close>

fun str_receiver :: "json \<Rightarrow> exn + string" where
  "str_receiver (JStr s) = Inr s"
| "str_receiver JNull = Inl AttributeError"
| "str_receiver (JBool b) = Inl AttributeError"
| "str_receiver (JNum r) = Inl AttributeError"
| "str_receiver (JArr xs) = Inl AttributeError"
| "str_receiver (JObj d) = Inl AttributeError"

text \<open>\<^verbatim>\<open>field[:n]\<close> used as a bind parameter: a string is cut; a list can be sliced but
  not bound; nothing else can be sliced.\<close>

fun py_slice :: "nat \<Rightarrow> json \<Rightarrow> exn + string" where
  "py_slice n (JStr s) = Inr (take n s)"
| "py_slice n (JArr xs) = Inl DatabaseError"
| "py_slice n JNull = Inl TypeError"
| "py_slice n (JBool b) = Inl TypeError"
| "py_slice n (JNum r) = Inl TypeError"
| "py_slice n (JObj d) = Inl TypeError"

text \<open>\<^verbatim>\<open>get_or_create_equipment\<close> (lines 346-369).\<close>

definition get_or_create_equipment :: "SensorReading \<Rightarrow> string svm" where
  "get_or_create_equipment reading =
     sbind (slift (str_receiver (device_id reading))) (\<lambda>dev.
       let equipment_id = py_replace ''_'' [] (py_replace ''ESP32_'' [] dev) @ ''_EQ'' in
       sbind (on_connection db_cursor) (\<lambda>cursor.
       sbind (on_connection (count_equipamento equipment_id)) (\<lambda>n.
         if n = 0
         then
           sbind (slift (py_slice 16 (equipment_type reading))) (\<lambda>t.
           sbind (slift (py_slice 50 (location reading))) (\<lambda>l.
           sbind (on_connection (insert_equipamento (equipment_id, t, l))) (\<lambda>u.
           sbind (slog INFO ''Novo equipamento criado'') (\<lambda>u.
             slift (Inr equipment_id)))))
         else slift (Inr equipment_id))))"

text \<open>\<^verbatim>\<open>get_or_create_sensor\<close> (lines 371-394).\<close>

definition get_or_create_sensor :: "SensorReading \<Rightarrow> string svm" where
  "get_or_create_sensor reading =
     sbind (slift (str_receiver (device_id reading))) (\<lambda>dev.
       let sensor_id = py_replace ''ESP32_'' ''SENS_'' dev in
       sbind (on_connection db_cursor) (\<lambda>cursor.
       sbind (on_connection (count_sensor sensor_id)) (\<lambda>n.
         if n = 0
         then sbind (on_connection (insert_sensor (sensor_id, ''ESP32_Multi'', ''Mixed''))) (\<lambda>u.
              sbind (slog INFO ''Novo sensor criado'') (\<lambda>u.
                slift (Inr sensor_id)))
         else slift (Inr sensor_id))))"

text \<open>Lines 310-313: the magnitude is computed when no component is \<^verbatim>\<open>None\<close>. The
  arithmetic is the library's.\<close>

definition vibration_total :: "pylib \<Rightarrow> json \<Rightarrow> json \<Rightarrow> json \<Rightarrow> exn + real option" where
  "vibration_total L vibr_x vibr_y vibr_z =
     (if vibr_x \<noteq> JNull \<and> vibr_y \<noteq> JNull \<and> vibr_z \<noteq> JNull
      then bnd (num_of vibr_x) (\<lambda>x. bnd (num_of vibr_y) (\<lambda>y. bnd (num_of vibr_z) (\<lambda>z.
             case magnitude L x y z of
               None \<Rightarrow> Inl OverflowError
             | Some v \<Rightarrow> Inr (Some v))))
      else Inr None)"

text \<open>Lines 297-331: the parameters of the stored procedure.\<close>

definition procedure_row :: "pylib \<Rightarrow> SensorReading \<Rightarrow> string \<Rightarrow> string \<Rightarrow> exn + medicao" where
  "procedure_row L reading sensor_id equipment_id =
     (let sens = sensors reading in
      bnd (py_get sens ''temperature'' JNull) (\<lambda>temperature.
      bnd (py_get sens ''temperature_dht'' JNull) (\<lambda>temperature_dht.
      bnd (py_get sens ''humidity'' JNull) (\<lambda>humidity.
      bnd (py_get sens ''pressure'' JNull) (\<lambda>pressure.
      bnd (py_get sens ''vibr_x'' JNull) (\<lambda>dx. bnd (py_get sens ''vibration_x'' dx) (\<lambda>vibr_x.
      bnd (py_get sens ''vibr_y'' JNull) (\<lambda>dy. bnd (py_get sens ''vibration_y'' dy) (\<lambda>vibr_y.
      bnd (py_get sens ''vibr_z'' JNull) (\<lambda>dz. bnd (py_get sens ''vibration_z'' dz) (\<lambda>vibr_z.
      bnd (py_get sens ''gyro_x'' JNull) (\<lambda>gyro_x.
      bnd (py_get sens ''gyro_y'' JNull) (\<lambda>gyro_y.
      bnd (py_get sens ''gyro_z'' JNull) (\<lambda>gyro_z.
      bnd (vibration_total L vibr_x vibr_y vibr_z) (\<lambda>total.
        Inr \<lparr>p_id_sensor = sensor_id, p_id_maquina = equipment_id,
             p_temperatura = temperature, p_pressao = pressure, p_vibracao = total,
             p_humidade = humidity, p_vibr_x = vibr_x, p_vibr_y = vibr_y, p_vibr_z = vibr_z,
             p_gyro_x = gyro_x, p_gyro_y = gyro_y, p_gyro_z = gyro_z,
             p_flag_falha = (if truthy (fault_detected reading) then ''S'' else ''N''),
             p_fonte = source reading\<rparr>)))))))))))))))"

text \<open>Lines 291-313 and the parameter list: what \<^verbatim>\<open>insert_sensor_data\<close> does before it
  calls the stored procedure.\<close>

definition prepare_row :: "pylib \<Rightarrow> SensorReading \<Rightarrow> medicao svm" where
  "prepare_row L reading =
     sbind (on_connection db_cursor) (\<lambda>cursor.
     sbind (get_or_create_equipment reading) (\<lambda>equipment_id.
     sbind (get_or_create_sensor reading) (\<lambda>sensor_id.
       slift (procedure_row L reading sensor_id equipment_id))))"

text \<open>The body of the \<^verbatim>\<open>try\<close> block up to and including the commit (lines 291-333).\<close>

definition insert_body :: "pylib \<Rightarrow> SensorReading \<Rightarrow> unit svm" where
  "insert_body L reading =
     sbind (prepare_row L reading) (\<lambda>row.
     sbind (on_connection (db_callproc row)) (\<lambda>u.
       on_connection (\<lambda>c. (Inr (), db_commit c))))"

text \<open>
  \<^verbatim>\<open>insert_sensor_data\<close>. \<open>now\<close> is the clock read for \<^verbatim>\<open>last_insert\<close>. The handler
  logs, rolls back and counts; without a connection its \<^verbatim>\<open>rollback\<close> raises and that
  exception leaves the function.
\<close>

definition insert_sensor_data ::
  "pylib \<Rightarrow> datetime \<Rightarrow> service \<Rightarrow> SensorReading \<Rightarrow> (exn + bool) \<times> service" where
  "insert_sensor_data L now s reading =
     (case insert_body L reading s of
        (Inr u, s1) \<Rightarrow>
          (Inr True,
           log_line DEBUG ''Dados inseridos com sucesso''
             (s1\<lparr>stats := (stats s1)\<lparr>total_records := total_records (stats s1) + 1,
                                      last_insert := Some now\<rparr>\<rparr>))
      | (Inl e, s1) \<Rightarrow>
          (let s2 = log_line ERROR ''Erro ao inserir dados no banco'' s1 in
           case db_connection s2 of
             None \<Rightarrow> (Inl AttributeError, s2)
           | Some c \<Rightarrow>
               (Inr False,
                s2\<lparr>db_connection := Some (db_rollback c),
                   stats := (stats s2)\<lparr>failed_inserts := failed_inserts (stats s2) + 1\<rparr>\<rparr>)))"

text \<open>Lines 403-412: up to \<open>n\<close> more readings are taken from the queue.\<close>

fun collect_batch :: "nat \<Rightarrow> SensorReading Queue \<Rightarrow> SensorReading list \<times> SensorReading Queue" where
  "collect_batch 0 q = ([], q)"
| "collect_batch (Suc n) q =
     (if queue_empty q then ([], q)
      else (case queue_get q of
              None \<Rightarrow> ([], q)
            | Some (r, q') \<Rightarrow> (case collect_batch n q' of (rs, q'') \<Rightarrow> (r # rs, q''))))"

text \<open>Lines 416-419: every reading of the batch is inserted once; \<open>k\<close> counts the
  successes.\<close>

fun insert_all ::
  "pylib \<Rightarrow> datetime \<Rightarrow> service \<Rightarrow> SensorReading list \<Rightarrow> nat \<Rightarrow> (exn + nat) \<times> service" where
  "insert_all L now s [] k = (Inr k, s)"
| "insert_all L now s (r # rs) k =
     (case insert_sensor_data L now s r of
        (Inl e, s') \<Rightarrow> (Inl e, s')
      | (Inr ok, s') \<Rightarrow> insert_all L now s' rs (if ok then k + 1 else k))"

text \<open>One pass of the body of \<^verbatim>\<open>data_processing_loop\<close> (the sleep apart).\<close>

definition processing_pass :: "pylib \<Rightarrow> datetime \<Rightarrow> service \<Rightarrow> service" where
  "processing_pass L now s =
     (case collect_batch batch_insert_size (data_queue s) of
        (batch, q) \<Rightarrow>
          if batch \<noteq> []
          then (case insert_all L now (s\<lparr>data_queue := q\<rparr>) batch 0 of
                  (Inr k, s') \<Rightarrow> log_line INFO ''Lote processado'' s'
                | (Inl e, s') \<Rightarrow> log_line ERROR ''Erro no loop de processamento'' s')
          else s\<lparr>data_queue := q\<rparr>)"

text \<open>\<^verbatim>\<open>data_processing_loop\<close> over the clock readings of its passes: it runs while
  \<^verbatim>\<open>is_running\<close> holds.\<close>

fun data_processing_loop :: "pylib \<Rightarrow> service \<Rightarrow> datetime list \<Rightarrow> service" where
  "data_processing_loop L s [] = s"
| "data_processing_loop L s (now # ticks) =
     (if is_running s then data_processing_loop L (processing_pass L now s) ticks else s)"

section \<open>ETL pipeline (etl\_pipeline.py)\<close>

subsection \<open>Data frames\<close>

text \<open>
  A pandas DataFrame, column by column. A numeric column holds doubles, read as the reals
  they denote, with \<open>None\<close> for NaN (the infinities are outside the model); an object
  column holds strings with \<open>None\<close> for a missing value; a datetime column holds
  instants with \<open>None\<close> for NaT, and a flag that says whether the column carries a time
  zone. \<open>nrows\<close> is the length of the index, which \<^verbatim>\<open>len(df)\<close> returns.
\<close>

datatype column =
    NumCol "real option list"
  | TxtCol "string option list"
  | TimeCol bool "datetime option list"

record dataframe =
  nrows :: nat
  cols :: "(string \<times> column) list"

fun col_len :: "column \<Rightarrow> nat" where
  "col_len (NumCol xs) = length xs"
| "col_len (TxtCol xs) = length xs"
| "col_len (TimeCol aware ts) = length ts"


definition columns :: "dataframe \<Rightarrow> string list" where
  "columns df = map fst (cols df)"

text \<open>\<^verbatim>\<open>df.empty\<close>: an axis of length zero.\<close>

definition df_empty :: "dataframe \<Rightarrow> bool" where
  "df_empty df = (nrows df = 0 \<or> cols df = [])"

text \<open>\<^verbatim>\<open>df[name] = column\<close>: an existing column is replaced where it stands, a new one
  is added last.\<close>

fun set_col :: "string \<Rightarrow> column \<Rightarrow> (string \<times> column) list \<Rightarrow> (string \<times> column) list" where
  "set_col k v [] = [(k, v)]"
| "set_col k v ((k', v') # rest) =
     (if k = k' then (k, v) # rest else (k', v') # set_col k v rest)"

definition assign :: "string \<Rightarrow> column \<Rightarrow> dataframe \<Rightarrow> dataframe" where
  "assign k v df = df\<lparr>cols := set_col k v (cols df)\<rparr>"

fun col_nulls :: "column \<Rightarrow> nat" where
  "col_nulls (NumCol xs) = length (filter (\<lambda>v. v = None) xs)"
| "col_nulls (TxtCol xs) = length (filter (\<lambda>v. v = None) xs)"
| "col_nulls (TimeCol aware ts) = length (filter (\<lambda>v. v = None) ts)"

text \<open>\<^verbatim>\<open>df.isnull().sum().sum()\<close>.\<close>

definition isnull_sum :: "dataframe \<Rightarrow> nat" where
  "isnull_sum df = sum_list (map (\<lambda>(n, c). col_nulls c) (cols df))"

text \<open>
  The calls into pandas and numpy whose result the repository does not determine. They
  are parameters of the model:
  \<^item> \<^verbatim>\<open>pd.to_datetime(column)\<close>: the exception it raises, or the time-zone flag and the
    cells of the datetime column it returns;
  \<^item> \<^verbatim>\<open>Series.median()\<close> and \<^verbatim>\<open>Series.quantile(q)\<close>, \<open>None\<close> for NaN;
  \<^item> the subtraction, addition and multiplication of two doubles, which round;
  \<^item> \<^verbatim>\<open>np.sqrt(x**2 + y**2 + z**2)\<close> on three doubles;
  \<^item> the order in which \<^verbatim>\<open>sort_values\<close> leaves the rows of a datetime column: the list of
    the row numbers, first row first (pandas sorts with quicksort, which need not keep
    the order of equal timestamps).
\<close>

record pdlib =
  pd_to_datetime :: "column \<Rightarrow> exn + bool \<times> datetime option list"
  pd_median :: "real option list \<Rightarrow> real option"
  pd_quantile :: "real \<Rightarrow> real option list \<Rightarrow> real option"
  fl_sub :: "real \<Rightarrow> real \<Rightarrow> real"
  fl_add :: "real \<Rightarrow> real \<Rightarrow> real"
  fl_mul :: "real \<Rightarrow> real \<Rightarrow> real"
  np_magnitude :: "real \<Rightarrow> real \<Rightarrow> real \<Rightarrow> real"
  pd_argsort :: "datetime option list \<Rightarrow> nat list"

text \<open>\<^verbatim>\<open>pd.to_datetime(df[name])\<close> as a column.\<close>

definition to_datetime :: "pdlib \<Rightarrow> column \<Rightarrow> exn + column" where
  "to_datetime P c =
     (case pd_to_datetime P c of
        Inl e \<Rightarrow> Inl e
      | Inr (aware, ts) \<Rightarrow> Inr (TimeCol aware ts))"

subsection \<open>Metrics and quality checks\<close>

record PipelineMetrics =
  records_processed :: int
  records_failed :: int
  ml_predictions :: int
  alerts_generated :: int
  last_run_time :: "datetime option"
  average_processing_time :: real
  pipeline_status :: string
  errors_count :: int

record DataQualityCheck =
  check_name :: string
  passed :: bool
  message :: string
  check_timestamp :: datetime
  affected_records :: nat

text \<open>Decimal digits of a count, for the messages.\<close>

fun str_nat :: "nat \<Rightarrow> string" where
  "str_nat n =
     (if n < 10 then [''0123456789'' ! n]
      else str_nat (n div 10) @ [''0123456789'' ! (n mod 10)])"

declare str_nat.simps [simp del]

text \<open>Check 1 (lines 252-260). The test \<^verbatim>\<open>null_count < len(df) * 0.1\<close> is between a
  count and a double; it is written over the reals. On a frame without columns the sum of
  the empty series is the double \<^verbatim>\<open>0.0\<close>, and the message prints it so.\<close>

definition null_check :: "datetime \<Rightarrow> dataframe \<Rightarrow> DataQualityCheck" where
  "null_check t df =
     (let null_count = isnull_sum df in
      \<lparr>check_name = ''NULL_VALUES'',
       passed = (real null_count < real (nrows df) * 0.1),
       message = ''Encontrados '' @ (if cols df = [] then ''0.0'' else str_nat null_count)
                   @ '' valores nulos'',
       check_timestamp = t,
       affected_records = null_count\<rparr>)"

text \<open>Check 2 (lines 262-274). Comparing an object column that holds a string, or a
  datetime column, with a number raises.\<close>

fun out_of_range :: "column \<Rightarrow> exn + nat" where
  "out_of_range (NumCol xs) =
     Inr (length (filter (\<lambda>v. case v of None \<Rightarrow> False | Some x \<Rightarrow> x < - 50 \<or> 200 < x) xs))"
| "out_of_range (TxtCol xs) = (if list_all (\<lambda>v. v = None) xs then Inr 0 else Inl TypeError)"
| "out_of_range (TimeCol aware ts) = Inl TypeError"

definition temperature_check :: "datetime \<Rightarrow> dataframe \<Rightarrow> exn + DataQualityCheck list" where
  "temperature_check t df =
     (case map_of (cols df) ''VL_TEMPERATURA'' of
        None \<Rightarrow> Inr []
      | Some c \<Rightarrow>
          bnd (out_of_range c) (\<lambda>temp_outliers.
            Inr [\<lparr>check_name = ''TEMPERATURE_RANGE'',
                  passed = (temp_outliers = 0),
                  message = ''Temperatura fora do range: '' @ str_nat temp_outliers @ '' registros'',
                  check_timestamp = t,
                  affected_records = temp_outliers\<rparr>]))"

text \<open>Check 3 (lines 276-285): \<^verbatim>\<open>duplicated().sum()\<close> counts the cells that repeat an
  earlier one.\<close>

fun duplicated_sum :: "column \<Rightarrow> nat" where
  "duplicated_sum (NumCol xs) = length xs - length (remdups xs)"
| "duplicated_sum (TxtCol xs) = length xs - length (remdups xs)"
| "duplicated_sum (TimeCol aware ts) = length ts - length (remdups ts)"

definition duplicate_check :: "datetime \<Rightarrow> dataframe \<Rightarrow> DataQualityCheck list" where
  "duplicate_check t df =
     (case map_of (cols df) ''ID_MEDICAO'' of
        None \<Rightarrow> []
      | Some c \<Rightarrow>
          (let duplicates = duplicated_sum c in
           [\<lparr>check_name = ''DUPLICATES'',
             passed = (duplicates = 0),
             message = ''Registros duplicados: '' @ str_nat duplicates,
             check_timestamp = t,
             affected_records = duplicates\<rparr>]))"

text \<open>
  \<^verbatim>\<open>df['DATAHORA_MEDICAO'] > datetime.now()\<close> (line 290). The clock of the standard
  library has no time zone: comparing a column that carries one with it raises, whatever
  the cells are. A numeric column cannot be compared with an instant, nor can a string.
\<close>

fun later_than :: "datetime \<Rightarrow> column \<Rightarrow> exn + nat" where
  "later_than now (TimeCol aware ts) =
     (if aware then Inl TypeError
      else Inr (length (filter (\<lambda>v. case v of None \<Rightarrow> False | Some t \<Rightarrow> now < t) ts)))"
| "later_than now (NumCol xs) = Inl TypeError"
| "later_than now (TxtCol xs) = (if list_all (\<lambda>v. v = None) xs then Inr 0 else Inl TypeError)"

text \<open>
  Check 4 (lines 287-298): the column of the frame that was passed in is replaced by its
  conversion, then compared with the clock. The result is the check, or the exception
  that was raised, together with the frame as the statements left it: when the
  comparison raises, the column has already been replaced.
\<close>

definition future_check ::
  "pdlib \<Rightarrow> datetime \<Rightarrow> datetime \<Rightarrow> dataframe \<Rightarrow> (exn + DataQualityCheck list) \<times> dataframe" where
  "future_check P t now df =
     (case map_of (cols df) ''DATAHORA_MEDICAO'' of
        None \<Rightarrow> (Inr [], df)
      | Some c \<Rightarrow>
          (case to_datetime P c of
             Inl e \<Rightarrow> (Inl e, df)
           | Inr c' \<Rightarrow>
               (bnd (later_than now c') (\<lambda>future_records.
                  Inr [\<lparr>check_name = ''FUTURE_TIMESTAMPS'',
                        passed = (future_records = 0),
                        message = ''Timestamps futuros: '' @ str_nat future_records @ '' registros'',
                        check_timestamp = t,
                        affected_records = future_records\<rparr>]),
                assign ''DATAHORA_MEDICAO'' c' df)))"

text \<open>Lines 309-316: the check recorded when a check raised.\<close>

definition error_check :: "datetime \<Rightarrow> DataQualityCheck" where
  "error_check t =
     \<lparr>check_name = ''QUALITY_CHECK_ERROR'', passed = False,
      message = ''Erro ao executar checks'', check_timestamp = t, affected_records = 0\<rparr>"

text \<open>
  \<^verbatim>\<open>perform_data_quality_checks\<close>. \<open>t\<close> is the clock at entry, \<open>now\<close> the clock read by
  check 4. The result is the list of checks and the frame as the call leaves it: the
  caller's frame is the one the function works on. The log lines are not modelled.
\<close>

definition perform_data_quality_checks ::
  "pdlib \<Rightarrow> datetime \<Rightarrow> datetime \<Rightarrow> dataframe \<Rightarrow> DataQualityCheck list \<times> dataframe" where
  "perform_data_quality_checks P t now df =
     (let checks1 = [null_check t df] in
      case temperature_check t df of
        Inl e \<Rightarrow> (checks1 @ [error_check t], df)
      | Inr c2 \<Rightarrow>
          (let checks3 = checks1 @ c2 @ duplicate_check t df in
           case future_check P t now df of
             (Inl e, df') \<Rightarrow> (checks3 @ [error_check t], df')
           | (Inr c4, df') \<Rightarrow> (checks3 @ c4, df')))"


subsection \<open>Transform: clean\_and\_transform\_data\<close>

definition fillna :: "real \<Rightarrow> real option list \<Rightarrow> real option list" where
  "fillna v xs = map (\<lambda>c. case c of None \<Rightarrow> Some v | Some x \<Rightarrow> Some x) xs"

definition median_filled :: "string list" where
  "median_filled = [''VL_TEMPERATURA'', ''VL_PRESSAO'', ''VL_HUMIDADE'']"

text \<open>Step 1 (lines 331-339), for one column. Filling with a NaN median changes
  nothing.\<close>

fun fill_column :: "pdlib \<Rightarrow> string \<Rightarrow> column \<Rightarrow> column" where
  "fill_column P name (NumCol xs) =
     (if 0 < length (filter (\<lambda>v. v = None) xs)
      then (if name \<in> set median_filled
            then (case pd_median P xs of None \<Rightarrow> NumCol xs | Some m \<Rightarrow> NumCol (fillna m xs))
            else NumCol (fillna 0 xs))
      else NumCol xs)"
| "fill_column P name (TxtCol xs) = TxtCol xs"
| "fill_column P name (TimeCol aware ts) = TimeCol aware ts"

definition fill_nulls :: "pdlib \<Rightarrow> dataframe \<Rightarrow> dataframe" where
  "fill_nulls P df = df\<lparr>cols := map (\<lambda>(n, c). (n, fill_column P n c)) (cols df)\<rparr>"

text \<open>Lines 344-350: the quartiles of the column and the two bounds, in the arithmetic of
  doubles. \<open>None\<close> when a quartile is NaN.\<close>

definition clip_bounds :: "pdlib \<Rightarrow> real option list \<Rightarrow> (real \<times> real) option" where
  "clip_bounds P xs =
     (case (pd_quantile P 0.25 xs, pd_quantile P 0.75 xs) of
        (Some Q1, Some Q3) \<Rightarrow>
          (let IQR = fl_sub P Q3 Q1;
               lower_bound = fl_sub P Q1 (fl_mul P 3 IQR);
               upper_bound = fl_add P Q3 (fl_mul P 3 IQR)
           in Some (lower_bound, upper_bound))
      | (Some Q1, None) \<Rightarrow> None
      | (None, q3) \<Rightarrow> None)"

text \<open>\<^verbatim>\<open>np.clip(x, lower, upper)\<close> is \<^verbatim>\<open>minimum(maximum(x, lower), upper)\<close>.\<close>

definition clip_value :: "real \<Rightarrow> real \<Rightarrow> real \<Rightarrow> real" where
  "clip_value lower upper x = min (max x lower) upper"

definition is_outlier :: "real \<Rightarrow> real \<Rightarrow> real option \<Rightarrow> bool" where
  "is_outlier lower upper v = (case v of None \<Rightarrow> False | Some x \<Rightarrow> x < lower \<or> upper < x)"

text \<open>Step 2 (lines 344-358), for one column. With NaN bounds every comparison is false
  and nothing is clipped. A column that is not numeric has no quantile.\<close>

fun clip_column :: "pdlib \<Rightarrow> column \<Rightarrow> exn + column" where
  "clip_column P (NumCol xs) =
     (case clip_bounds P xs of
        None \<Rightarrow> Inr (NumCol xs)
      | Some (lower_bound, upper_bound) \<Rightarrow>
          (let outliers_count = length (filter (is_outlier lower_bound upper_bound) xs)
           in if 0 < outliers_count
              then Inr (NumCol (map (map_option (clip_value lower_bound upper_bound)) xs))
              else Inr (NumCol xs)))"
| "clip_column P (TxtCol xs) = Inl TypeError"
| "clip_column P (TimeCol aware ts) = Inl TypeError"

definition clipped_columns :: "string list" where
  "clipped_columns = [''VL_TEMPERATURA'', ''VL_PRESSAO'', ''VL_VIBRACAO'']"

fun clip_outliers :: "pdlib \<Rightarrow> string list \<Rightarrow> dataframe \<Rightarrow> exn + dataframe" where
  "clip_outliers P [] df = Inr df"
| "clip_outliers P (col # rest) df =
     (case map_of (cols df) col of
        None \<Rightarrow> clip_outliers P rest df
      | Some c \<Rightarrow> bnd (clip_column P c) (\<lambda>c'. clip_outliers P rest (assign col c' df)))"

text \<open>Step 3 (lines 360-362).\<close>

definition standardize_timestamps :: "pdlib \<Rightarrow> dataframe \<Rightarrow> exn + dataframe" where
  "standardize_timestamps P df =
     (case map_of (cols df) ''DATAHORA_MEDICAO'' of
        None \<Rightarrow> Inr df
      | Some c \<Rightarrow> bnd (to_datetime P c) (\<lambda>c'. Inr (assign ''DATAHORA_MEDICAO'' c' df)))"

text \<open>Arithmetic on a column asks for numbers.\<close>

fun numeric :: "column \<Rightarrow> exn + real option list" where
  "numeric (NumCol xs) = Inr xs"
| "numeric (TxtCol xs) = Inl TypeError"
| "numeric (TimeCol aware ts) = Inl TypeError"

fun magnitude3 :: "pdlib \<Rightarrow> real option \<Rightarrow> real option \<Rightarrow> real option \<Rightarrow> real option" where
  "magnitude3 P (Some x) (Some y) (Some z) = Some (np_magnitude P x y z)"
| "magnitude3 P x y z = None"

text \<open>Step 4, first feature (lines 366-371).\<close>

definition vibration_magnitude :: "pdlib \<Rightarrow> dataframe \<Rightarrow> exn + dataframe" where
  "vibration_magnitude P df =
     (case (map_of (cols df) ''VL_VIBR_X'', map_of (cols df) ''VL_VIBR_Y'',
            map_of (cols df) ''VL_VIBR_Z'') of
        (Some cx, Some cy, Some cz) \<Rightarrow>
          bnd (numeric cx) (\<lambda>xs. bnd (numeric cy) (\<lambda>ys. bnd (numeric cz) (\<lambda>zs.
            Inr (assign ''VIBRACAO_MAGNITUDE''
                   (NumCol (map (\<lambda>(x, y, z). magnitude3 P x y z) (zip xs (zip ys zs)))) df))))
      | (Some cx, Some cy, None) \<Rightarrow> Inr df
      | (Some cx, None, cz) \<Rightarrow> Inr df
      | (None, cy, cz) \<Rightarrow> Inr df)"

text \<open>Step 4, second feature (lines 374-379): \<^verbatim>\<open>pd.cut\<close> with the bins
  \<open>(-\<infinity>, 85]\<close>, \<open>(85, 95]\<close>, \<open>(95, \<infinity>]\<close>.\<close>

definition temp_label :: "real \<Rightarrow> string" where
  "temp_label x = (if x \<le> 85 then ''NORMAL'' else if x \<le> 95 then ''WARNING'' else ''CRITICAL'')"

definition temp_status :: "dataframe \<Rightarrow> exn + dataframe" where
  "temp_status df =
     (case map_of (cols df) ''VL_TEMPERATURA'' of
        None \<Rightarrow> Inr df
      | Some c \<Rightarrow>
          bnd (numeric c) (\<lambda>xs.
            Inr (assign ''TEMP_STATUS'' (TxtCol (map (map_option temp_label) xs)) df)))"

text \<open>Step 5 (lines 381-383): every column is rearranged in the order the library gives
  for the timestamps.\<close>

fun permute :: "nat list \<Rightarrow> column \<Rightarrow> column" where
  "permute p (NumCol xs) = NumCol (map (\<lambda>i. xs ! i) p)"
| "permute p (TxtCol xs) = TxtCol (map (\<lambda>i. xs ! i) p)"
| "permute p (TimeCol aware ts) = TimeCol aware (map (\<lambda>i. ts ! i) p)"

text \<open>After step 3 the timestamp column, when there is one, is a datetime column; the
  other two cases are not reached.\<close>

definition sort_values :: "pdlib \<Rightarrow> dataframe \<Rightarrow> dataframe" where
  "sort_values P df =
     (case map_of (cols df) ''DATAHORA_MEDICAO'' of
        None \<Rightarrow> df
      | Some (TimeCol aware ts) \<Rightarrow>
          df\<lparr>cols := map (\<lambda>(n, c). (n, permute (pd_argsort P ts) c)) (cols df)\<rparr>
      | Some (NumCol xs) \<Rightarrow> df
      | Some (TxtCol xs) \<Rightarrow> df)"

text \<open>The body of the \<^verbatim>\<open>try\<close> block after the copy.\<close>

definition transform_body :: "pdlib \<Rightarrow> dataframe \<Rightarrow> exn + dataframe" where
  "transform_body P df =
     bnd (clip_outliers P clipped_columns (fill_nulls P df)) (\<lambda>d2.
     bnd (standardize_timestamps P d2) (\<lambda>d3.
     bnd (vibration_magnitude P d3) (\<lambda>d4.
     bnd (temp_status d4) (\<lambda>d5.
       Inr (sort_values P d5)))))"

text \<open>\<^verbatim>\<open>clean_and_transform_data\<close>: an empty frame is returned as it is; when a step
  raises, the frame that was passed in is returned. The work is done on a copy.\<close>

definition clean_and_transform_data :: "pdlib \<Rightarrow> dataframe \<Rightarrow> dataframe" where
  "clean_and_transform_data P df =
     (if df_empty df then df
      else (case transform_body P df of Inl e \<Rightarrow> df | Inr df_clean \<Rightarrow> df_clean))"

subsection \<open>The orchestrator\<close>

text \<open>
  The stages after the transform (aggregation, predictions, load, export) write to the
  database and to files. The model keeps the list of the stages a cycle ran, in order,
  in \<open>performed\<close>. The two thread fields count the loops that \<^verbatim>\<open>start\<close> launched.
\<close>

datatype stage = Transform | Aggregate | Predict | Load | Export

record pipeline =
  etl_running :: bool
  metrics :: PipelineMetrics
  data_quality_checks :: "DataQualityCheck list"
  start_time :: "datetime option"
  processing_threads :: nat
  monitoring_threads :: nat
  performed :: "stage list"

text \<open>\<^verbatim>\<open>SmartMaintenanceETLPipeline.__init__\<close>.\<close>

definition init_pipeline :: pipeline where
  "init_pipeline =
     \<lparr>etl_running = False,
      metrics = \<lparr>records_processed = 0, records_failed = 0, ml_predictions = 0,
                 alerts_generated = 0, last_run_time = None, average_processing_time = 0,
                 pipeline_status = ''STOPPED'', errors_count = 0\<rparr>,
      data_quality_checks = [],
      start_time = None,
      processing_threads = 0,
      monitoring_threads = 0,
      performed = []\<rparr>"

text \<open>
  What the world answers during one cycle: the frame \<^verbatim>\<open>extract_sensor_data\<close> returns
  (empty when the query raised), the readings of the clock in the order the cycle takes
  them, the names of the views \<^verbatim>\<open>aggregate_data_for_reporting\<close> builds and the number of
  predictions \<^verbatim>\<open>run_ml_predictions\<close> emits for a transformed frame.
\<close>

record cycle_env =
  extracted :: dataframe
  pd :: pdlib
  clock_start :: datetime
  clock_checks :: datetime
  clock_future :: datetime
  clock_end :: datetime
  clock_last :: datetime
  aggregations_of :: "dataframe \<Rightarrow> string list"
  predictions_of :: "dataframe \<Rightarrow> nat"

text \<open>Line 599: a failed check whose count is above 20% of the rows. The test
  \<^verbatim>\<open>affected_records > len(df_raw) * 0.2\<close> is written over the reals.\<close>

definition critical_failures :: "DataQualityCheck list \<Rightarrow> dataframe \<Rightarrow> DataQualityCheck list" where
  "critical_failures quality_checks df_raw =
     filter (\<lambda>c. \<not> passed c \<and> real (nrows df_raw) * 0.2 < real (affected_records c)) quality_checks"

text \<open>Lines 622-630.\<close>

definition update_metrics :: "cycle_env \<Rightarrow> nat \<Rightarrow> nat \<Rightarrow> PipelineMetrics \<Rightarrow> PipelineMetrics" where
  "update_metrics E n_predictions n_rows m =
     (let cycle_time = real_of_int (clock_end E - clock_start E) / 1000000 in
      m\<lparr>ml_predictions := ml_predictions m + int n_predictions,
        records_processed := records_processed m + int n_rows,
        last_run_time := Some (clock_last E),
        average_processing_time :=
          (if 0 < average_processing_time m
           then (average_processing_time m + cycle_time) / 2
           else cycle_time)\<rparr>)"

text \<open>
  \<^verbatim>\<open>run_etl_cycle\<close>. Every stage catches its own exceptions, so the handler of the cycle
  itself is not reached in the model.
\<close>

definition run_etl_cycle :: "cycle_env \<Rightarrow> pipeline \<Rightarrow> bool \<times> pipeline" where
  "run_etl_cycle E p =
     (if df_empty (extracted E) then (True, p)
      else
        (case perform_data_quality_checks (pd E) (clock_checks E) (clock_future E) (extracted E) of
           (quality_checks, df_raw) \<Rightarrow>
             (let p1 = p\<lparr>data_quality_checks := data_quality_checks p @ quality_checks\<rparr> in
              if critical_failures quality_checks df_raw \<noteq> []
              then (False, p1\<lparr>metrics := (metrics p1)\<lparr>errors_count := errors_count (metrics p1) + 1\<rparr>\<rparr>)
              else
                (let df_clean = clean_and_transform_data (pd E) df_raw;
                     aggregations = aggregations_of E df_clean;
                     n_predictions = predictions_of E df_clean
                 in (True,
                     p1\<lparr>performed := performed p1 @ [Transform, Aggregate, Predict]
                                       @ (if aggregations \<noteq> [] then [Load] else []) @ [Export],
                        metrics := update_metrics E n_predictions (nrows df_raw) (metrics p1)\<rparr>)))))"

text \<open>\<^verbatim>\<open>processing_loop\<close> over the cycles the world allows: it runs while
  \<^verbatim>\<open>is_running\<close> holds.\<close>

fun processing_loop :: "pipeline \<Rightarrow> cycle_env list \<Rightarrow> pipeline" where
  "processing_loop p [] = p"
| "processing_loop p (E # Es) =
     (if etl_running p then processing_loop (snd (run_etl_cycle E p)) Es else p)"

text \<open>\<^verbatim>\<open>start\<close>: \<open>now\<close> is the clock, \<open>db_ok\<close> the answer of
  \<^verbatim>\<open>connect_database\<close>. There is no test of the state the pipeline is in.\<close>

definition start :: "datetime \<Rightarrow> bool \<Rightarrow> pipeline \<Rightarrow> bool \<times> pipeline" where
  "start now db_ok p =
     (let p1 = p\<lparr>start_time := Some now\<rparr> in
      if \<not> db_ok then (False, p1)
      else (True,
            p1\<lparr>etl_running := True,
               metrics := (metrics p1)\<lparr>pipeline_status := ''RUNNING''\<rparr>,
               processing_threads := processing_threads p1 + 1,
               monitoring_threads := monitoring_threads p1 + 1\<rparr>))"

text \<open>\<^verbatim>\<open>stop\<close>: the loops see the flag and leave.\<close>

definition stop :: "pipeline \<Rightarrow> pipeline" where
  "stop p =
     p\<lparr>etl_running := False,
       metrics := (metrics p)\<lparr>pipeline_status := ''STOPPED''\<rparr>,
       processing_threads := 0,
       monitoring_threads := 0\<rparr>"

section \<open>Predicates used by the statements\<close>


text \<open>The reading that lines 234-256 build from a payload, when they build one: the
  payload decodes, has the required keys, its timestamp converts and the constructor is
  reached.\<close>

definition decoded_reading :: "pylib \<Rightarrow> string \<Rightarrow> SensorReading option" where
  "decoded_reading L payload =
     (case json_loads L payload of
        None \<Rightarrow> None
      | Some data \<Rightarrow>
          (case all_in required_fields data of
             Inl e \<Rightarrow> None
           | Inr found \<Rightarrow>
               if \<not> found then None
               else (case bnd (py_getitem data ''timestamp'') (\<lambda>ts.
                            bnd (convert_timestamp L ts) (\<lambda>t. make_reading data t)) of
                       Inl e \<Rightarrow> None
                     | Inr r \<Rightarrow> Some r)))"

text \<open>Two states of a connection agree on what was committed and on the counters.\<close>

definition untouched :: "db_conn \<Rightarrow> db_conn \<Rightarrow> bool" where
  "untouched c c' =
     (durable c' = durable c \<and> rollbacks c' = rollbacks c \<and>
      sp_failures c' = sp_failures c \<and> sp_calls c' = sp_calls c)"

text \<open>A method keeps the queue and the statistics of the service, and its effect on the
  connection stays within \<open>R\<close>.\<close>

definition keeps :: "(db_conn \<Rightarrow> db_conn \<Rightarrow> bool) \<Rightarrow> 'a svm \<Rightarrow> bool" where
  "keeps R m =
     (\<forall>s x s'. m s = (x, s') \<longrightarrow>
        data_queue s' = data_queue s \<and> stats s' = stats s \<and>
        rel_option R (db_connection s) (db_connection s'))"

text \<open>A frame whose missing values all lie in the column \<open>ch\<close>, which has \<open>k\<close> of them.\<close>

definition nulls_only_in :: "dataframe \<Rightarrow> string \<Rightarrow> nat \<Rightarrow> bool" where
  "nulls_only_in df ch k =
     (distinct (map fst (cols df)) \<and> ch \<in> set (map fst (cols df)) \<and>
      list_all (\<lambda>(n, c). col_nulls c = (if n = ch then k else 0)) (cols df))"



section \<open>Example inputs\<close>

text \<open>The payloads are named by short strings; \<open>lib0\<close> decodes each to its document.
  ``ok'' is a complete payload, ``empty-sensors'' has an empty sensor map, ``no-timestamp''
  lacks the timestamp. \<open>lib0\<close> answers the calls that the examples make and raises on any
  other.\<close>

definition doc_ok :: json where
  "doc_ok = JObj [(''device_id'', JStr ''ESP32_A''), (''timestamp'', JNum 1700000000000),
                  (''sensors'', JObj [(''temperature'', JNum 25)])]"

definition doc_empty_sensors :: json where
  "doc_empty_sensors = JObj [(''device_id'', JStr ''ESP32_A''), (''timestamp'', JNum 1700000000000),
                  (''sensors'', JObj [])]"

definition doc_no_timestamp :: json where
  "doc_no_timestamp = JObj [(''device_id'', JStr ''ESP32_A''), (''sensors'', JObj [(''temperature'', JNum 25)])]"

definition lib0 :: pylib where
  "lib0 = \<lparr>json_loads = (\<lambda>s. if s = ''ok'' then Some doc_ok
                              else if s = ''empty-sensors'' then Some doc_empty_sensors
                              else if s = ''no-timestamp'' then Some doc_no_timestamp
                              else None),
           fromisoformat = (\<lambda>s. None),
           fromtimestamp = (\<lambda>r. Some \<lfloor>r * 1000000\<rfloor>),
           magnitude = (\<lambda>x y z. if (x, y, z) = (3, 4, 12) then Some 13 else None)\<rparr>"

definition reading_ok :: SensorReading where
  "reading_ok = \<lparr>device_id = JStr ''ESP32_A'', timestamp = 1700000000000000, location = JStr ''Unknown'',
     equipment_type = JStr ''Unknown'', sensors = JObj [(''temperature'', JNum 25)],
     fault_detected = JBool False, source = ''MQTT''\<rparr>"

definition full_service :: service where
  "full_service = init_service\<lparr>data_queue := \<lparr>maxsize = buffer_size, items = replicate 1000 reading_ok\<rparr>\<rparr>"

definition empty_tables :: tables where
  "empty_tables = \<lparr>T_EQUIPAMENTO = [], T_SENSOR = [], T_MEDICAO = []\<rparr>"

definition flaky_conn :: db_conn where
  "flaky_conn = \<lparr>working = empty_tables, durable = empty_tables, sp_failures = 1, sp_calls = 0, rollbacks = 0\<rparr>"

definition flaky_service :: service where
  "flaky_service = init_service\<lparr>db_connection := Some flaky_conn, data_queue := \<lparr>maxsize = buffer_size, items = [reading_ok]\<rparr>\<rparr>"

text \<open>The row that \<^verbatim>\<open>insert_sensor_data\<close> hands to the stored procedure for \<open>reading_ok\<close>.\<close>

definition row_ok :: medicao where
  "row_ok =
     \<lparr>p_id_sensor = ''SENS_A'', p_id_maquina = ''A_EQ'', p_temperatura = JNum 25,
      p_pressao = JNull, p_vibracao = None, p_humidade = JNull, p_vibr_x = JNull,
      p_vibr_y = JNull, p_vibr_z = JNull, p_gyro_x = JNull, p_gyro_y = JNull,
      p_gyro_z = JNull, p_flag_falha = ''N'', p_fonte = ''MQTT''\<rparr>"

text \<open>
  A library for the example windows. It converts the one date the examples write as
  text, computes medians and quartiles by linear interpolation over the sorted values,
  calculates exactly and sorts stably. On the example windows (small whole numbers, at
  most 16 rows with a timestamp) this is what pandas and numpy answer.
\<close>

fun convert_cells :: "('a \<Rightarrow> datetime option) \<Rightarrow> 'a option list \<Rightarrow> exn + datetime option list" where
  "convert_cells f [] = Inr []"
| "convert_cells f (None # xs) = bnd (convert_cells f xs) (\<lambda>ts. Inr (None # ts))"
| "convert_cells f (Some x # xs) =
     (case f x of
        None \<Rightarrow> Inl ValueError
      | Some t \<Rightarrow> bnd (convert_cells f xs) (\<lambda>ts. Inr (Some t # ts)))"

fun present :: "real option list \<Rightarrow> real list" where
  "present [] = []"
| "present (None # xs) = present xs"
| "present (Some x # xs) = x # present xs"

definition quantile :: "real \<Rightarrow> real option list \<Rightarrow> real option" where
  "quantile q xs =
     (let s = sort (present xs); n = length s in
      if n = 0 then None
      else (let pos = q * real (n - 1); lo = nat \<lfloor>pos\<rfloor>; hi = nat \<lceil>pos\<rceil> in
            Some (s ! lo + (s ! hi - s ! lo) * (pos - real lo))))"

definition median :: "real option list \<Rightarrow> real option" where
  "median xs =
     (let s = sort (present xs); n = length s in
      if n = 0 then None
      else if odd n then Some (s ! (n div 2))
      else Some ((s ! (n div 2 - 1) + s ! (n div 2)) / 2))"

definition sort_order :: "datetime option list \<Rightarrow> nat list" where
  "sort_order ts =
     sort_key (\<lambda>i. the (ts ! i)) (filter (\<lambda>i. ts ! i \<noteq> None) [0..<length ts])
     @ filter (\<lambda>i. ts ! i = None) [0..<length ts]"

definition to_datetime0 :: "column \<Rightarrow> exn + bool \<times> datetime option list" where
  "to_datetime0 c =
     (case c of
        TimeCol aware ts \<Rightarrow> Inr (aware, ts)
      | TxtCol xs \<Rightarrow>
          bnd (convert_cells (\<lambda>s. if s = ''2024-01-01'' then Some 1704067200000000 else None) xs)
            (\<lambda>ts. Inr (False, ts))
      | NumCol xs \<Rightarrow> bnd (convert_cells (\<lambda>r. Some \<lfloor>r / 1000\<rfloor>) xs) (\<lambda>ts. Inr (False, ts)))"

definition pd0 :: pdlib where
  "pd0 = \<lparr>pd_to_datetime = to_datetime0,
          pd_median = median,
          pd_quantile = quantile,
          fl_sub = (\<lambda>x y. x - y),
          fl_add = (\<lambda>x y. x + y),
          fl_mul = (\<lambda>x y. x * y),
          np_magnitude = (\<lambda>x y z. sqrt (x\<^sup>2 + y\<^sup>2 + z\<^sup>2)),
          pd_argsort = sort_order\<rparr>"

text \<open>
  Windows for the ETL cycle: \<open>hot_window\<close> has one row, with a temperature of 500;
  \<open>good_window\<close> has two clean rows; \<open>sparse_window\<close> has 20 rows, three of them
  without a pressure; \<open>text_window\<close> holds its timestamp as text, \<open>unparsed_window\<close> as
  text that is not a date. \<open>env_of\<close> is a cycle that extracts the given window. None of
  these windows has the columns that the aggregations and the predictions read
  (\<^verbatim>\<open>ID_MAQUINA\<close>, \<^verbatim>\<open>VL_HUMIDADE\<close>, \<^verbatim>\<open>FLAG_FALHA\<close>), so
  \<^verbatim>\<open>aggregate_data_for_reporting\<close> builds no view and \<^verbatim>\<open>run_ml_predictions\<close> emits no
  prediction.
\<close>

definition env_of :: "dataframe \<Rightarrow> cycle_env" where
  "env_of df =
     \<lparr>extracted = df, pd = pd0, clock_start = 100, clock_checks = 101, clock_future = 102,
      clock_end = 103, clock_last = 104,
      aggregations_of = (\<lambda>d. []),
      predictions_of = (\<lambda>d. 0)\<rparr>"

definition hot_window :: dataframe where
  "hot_window =
     \<lparr>nrows = 1,
      cols = [(''ID_MEDICAO'', NumCol [Some 1]),
              (''DATAHORA_MEDICAO'', TimeCol False [Some 10]),
              (''VL_TEMPERATURA'', NumCol [Some 500])]\<rparr>"

definition good_window :: dataframe where
  "good_window =
     \<lparr>nrows = 2,
      cols = [(''ID_MEDICAO'', NumCol [Some 1, Some 2]),
              (''DATAHORA_MEDICAO'', TimeCol False [Some 20, Some 10]),
              (''VL_TEMPERATURA'', NumCol [Some 70, Some 90])]\<rparr>"

definition empty_window :: dataframe where
  "empty_window = \<lparr>nrows = 0, cols = []\<rparr>"

definition text_window :: dataframe where
  "text_window =
     \<lparr>nrows = 1,
      cols = [(''ID_MEDICAO'', NumCol [Some 1]),
              (''DATAHORA_MEDICAO'', TxtCol [Some ''2024-01-01''])]\<rparr>"

definition sparse_window :: dataframe where
  "sparse_window =
     \<lparr>nrows = 20,
      cols = [(''ID_MEDICAO'', NumCol [Some 1, Some 2, Some 3, Some 4, Some 5, Some 6, Some 7,
                 Some 8, Some 9, Some 10, Some 11, Some 12, Some 13, Some 14, Some 15, Some 16,
                 Some 17, Some 18, Some 19, Some 20]),
              (''VL_PRESSAO'', NumCol [None, None, None, Some 1, Some 1, Some 1, Some 1,
                 Some 1, Some 1, Some 1, Some 1, Some 1, Some 1, Some 1, Some 1, Some 1,
                 Some 1, Some 1, Some 1, Some 1])]\<rparr>"



definition unparsed_window :: dataframe where
  "unparsed_window =
     \<lparr>nrows = 5,
      cols = [(''ID_MEDICAO'', NumCol [Some 1, Some 2, Some 3, Some 4, Some 5]),
              (''DATAHORA_MEDICAO'', TxtCol [Some ''n/a'', Some ''n/a'', Some ''n/a'',
                 Some ''n/a'', Some ''n/a'']),
              (''VL_TEMPERATURA'', NumCol [Some 10, Some 1000, Some 11, Some 13, Some 12])]\<rparr>"

section \<open>Verified properties of the ingestion service\<close>

subsection \<open>The enqueue path\<close>


lemma all_in_result: "all_in fs data = Inl e \<Longrightarrow> e = TypeError"
  by (induction fs) (cases data; auto split: if_splits sum.splits bool.splits)+

lemma bnd_assoc: "bnd (bnd m f) g = bnd m (\<lambda>x. bnd (f x) g)"
  by (cases m) (simp_all add: bnd_def)

lemma bnd_Inl [simp]: "bnd (Inl e) f = Inl e"
  by (simp add: bnd_def)

lemma bnd_Inr [simp]: "bnd (Inr v) f = f v"
  by (simp add: bnd_def)

text \<open>What \<^verbatim>\<open>process_sensor_data\<close> can do with a payload.\<close>

lemma process_cases:
  "(decoded_reading L p = None \<and>
    (process_sensor_data L s p = log_line ERROR ''Erro ao decodificar JSON'' s \<or>
     process_sensor_data L s p = log_line ERROR ''Erro ao processar dados de sensor'' s \<or>
     process_sensor_data L s p = log_line WARNING ''Dados incompletos recebidos'' s)) \<or>
   (\<exists>r. decoded_reading L p = Some r \<and> process_sensor_data L s p = enqueue s r)"
proof (cases "json_loads L p")
  case None
  then show ?thesis
    by (simp add: decoded_reading_def process_sensor_data_def decode_and_enqueue_def)
next
  case (Some data)
  show ?thesis
  proof (cases "all_in required_fields data")
    case (Inl e)
    with all_in_result[of required_fields data e] Some show ?thesis
      by (simp add: decoded_reading_def process_sensor_data_def decode_and_enqueue_def)
  next
    case (Inr b)
    show ?thesis
    proof (cases b)
      case False
      with Some Inr show ?thesis
        by (simp add: decoded_reading_def process_sensor_data_def decode_and_enqueue_def)
    next
      case True
      define X where "X = bnd (py_getitem data ''timestamp'') (\<lambda>ts.
                            bnd (convert_timestamp L ts) (\<lambda>t. make_reading data t))"
      have d: "decode_and_enqueue L s p = bnd X (\<lambda>r. Inr (enqueue s r))"
        using Some Inr True by (simp add: decode_and_enqueue_def X_def bnd_assoc)
      have r: "decoded_reading L p = (case X of Inl e \<Rightarrow> None | Inr r \<Rightarrow> Some r)"
        using Some Inr True by (simp add: decoded_reading_def X_def)
      show ?thesis
      proof (cases X)
        case (Inl e)
        with d r show ?thesis by (cases e) (simp_all add: process_sensor_data_def)
      next
        case (Inr r')
        with d r show ?thesis by (simp add: process_sensor_data_def)
      qed
    qed
  qed
qed

lemma stats_process [simp]: "stats (process_sensor_data L s p) = stats s"
  using process_cases[of L p s] by (auto simp: enqueue_def log_line_def)

lemma queue_process:
  "data_queue (process_sensor_data L s p) = data_queue s \<or>
   (\<not> queue_full (data_queue s) \<and> (\<exists>r. data_queue (process_sensor_data L s p) = queue_put (data_queue s) r))"
  using process_cases[of L p s] by (auto simp: enqueue_def log_line_def)

lemma queue_process_full:
  "queue_full (data_queue s) \<Longrightarrow> data_queue (process_sensor_data L s p) = data_queue s"
  using queue_process[of L s p] by auto

lemma queue_bound_step:
  assumes "maxsize (data_queue s) = buffer_size" "int (qsize (data_queue s)) \<le> buffer_size"
  shows "maxsize (data_queue (process_sensor_data L s p)) = buffer_size \<and>
         int (qsize (data_queue (process_sensor_data L s p))) \<le> buffer_size"
  using queue_process[of L s p] assms
  by (auto simp: queue_full_def queue_put_def qsize_def buffer_size_def)

lemma queue_bound_all:
  "maxsize (data_queue s) = buffer_size \<Longrightarrow> int (qsize (data_queue s)) \<le> buffer_size \<Longrightarrow>
   int (qsize (data_queue (process_all L s ps))) \<le> buffer_size"
proof (induction ps arbitrary: s)
  case Nil
  then show ?case by simp
next
  case (Cons p ps)
  from queue_bound_step[OF Cons.prems, of L p] show ?case
    by (simp add: Cons.IH)
qed

lemma decoded_enqueued:
  "decoded_reading L payload = Some r \<Longrightarrow> process_sensor_data L s payload = enqueue s r"
  using process_cases[of L payload s] by auto

lemma process_one_line:
  "queue_full (data_queue s) \<Longrightarrow> \<exists>lv msg. process_sensor_data L s payload = log_line lv msg s"
  using process_cases[of L payload s] by (auto simp: enqueue_def)

text \<open>
  Claim C1, as the code has it. When the queue already holds \<open>buffer_size\<close> readings, a
  payload that arrives is dropped: the queue is unchanged, and the call leaves the service
  as it was but for one log line. For a payload that decodes to a reading that line is the
  warning \<^verbatim>\<open>Fila de dados cheia! Dados podem ser perdidos\<close>. No counter records the drop:
  the statistics of the service, \<open>failed_inserts\<close> among them, are unchanged (the service
  has no \<open>records_failed\<close> counter). After any run of payloads the queue holds at most
  \<open>buffer_size\<close> readings.
\<close>

theorem enqueue_full_drops_uncounted:
  "(queue_full (data_queue s) \<longrightarrow>
      data_queue (process_sensor_data L s payload) = data_queue s \<and>
      stats (process_sensor_data L s payload) = stats s \<and>
      (\<exists>lv msg. process_sensor_data L s payload = log_line lv msg s)) \<and>
   (queue_full (data_queue s) \<and> decoded_reading L payload = Some r \<longrightarrow>
      process_sensor_data L s payload =
        log_line WARNING ''Fila de dados cheia! Dados podem ser perdidos'' s) \<and>
   (maxsize (data_queue s) = buffer_size \<and> int (qsize (data_queue s)) \<le> buffer_size \<longrightarrow>
      int (qsize (data_queue (process_all L s payloads))) \<le> buffer_size)"
  using queue_process_full[of s L payload] queue_bound_all[of s L payloads]
    decoded_enqueued[of L payload r s] process_one_line[of s L payload]
  by (auto simp: enqueue_def)

lemma full_service_full: "queue_full (data_queue full_service)"
  by (simp add: full_service_def queue_full_def qsize_def buffer_size_def)

lemma full_service_bound:
  "maxsize (data_queue full_service) = buffer_size \<and> int (qsize (data_queue full_service)) \<le> buffer_size"
  by (simp add: full_service_def qsize_def buffer_size_def)

lemma decoded_ok: "decoded_reading lib0 ''ok'' = Some reading_ok"
  by (simp add: decoded_reading_def lib0_def doc_ok_def required_fields_def bnd_def
      make_reading_def reading_ok_def)

text \<open>The hypotheses of C1 hold for a service whose queue holds 1000 readings and a
  payload that decodes.\<close>

theorem enqueue_full_witness:
  "queue_full (data_queue full_service) \<and>
   decoded_reading lib0 ''ok'' = Some reading_ok \<and>
   maxsize (data_queue full_service) = buffer_size \<and>
   int (qsize (data_queue full_service)) \<le> buffer_size \<and>
   data_queue (process_sensor_data lib0 full_service ''ok'') = data_queue full_service \<and>
   stats (process_sensor_data lib0 full_service ''ok'') = stats full_service \<and>
   process_sensor_data lib0 full_service ''ok'' =
     log_line WARNING ''Fila de dados cheia! Dados podem ser perdidos'' full_service \<and>
   int (qsize (data_queue (process_all lib0 full_service [''ok'', ''ok'']))) \<le> buffer_size"
  using enqueue_full_drops_uncounted[of full_service lib0 "''ok''" reading_ok "[''ok'', ''ok'']"]
    full_service_full full_service_bound decoded_ok
  by blast

lemma process_ok_full:
  "process_sensor_data lib0 full_service ''ok'' =
     log_line WARNING ''Fila de dados cheia! Dados podem ser perdidos'' full_service"
  using full_service_full decoded_enqueued[OF decoded_ok, of full_service]
  by (simp add: enqueue_def)

text \<open>
  Claim C1 as stated fails: a complete payload that meets a full queue leaves the failure
  counter where it was, not one higher. All the call does is log a warning.
\<close>

theorem overflow_not_counted_counterexample:
  "process_sensor_data lib0 full_service ''ok'' =
     log_line WARNING ''Fila de dados cheia! Dados podem ser perdidos'' full_service \<and>
   failed_inserts (stats (process_sensor_data lib0 full_service ''ok''))
     \<noteq> failed_inserts (stats full_service) + 1"
  by (simp add: process_ok_full log_line_def)

subsection \<open>Incomplete payloads\<close>








subsection \<open>Failed inserts\<close>

lemma keeps_sbind:
  assumes "transp R" "keeps R m" "\<And>v. keeps R (f v)"
  shows "keeps R (sbind m f)"
  unfolding keeps_def
proof (intro allI impI)
  fix s x s' assume a: "sbind m f s = (x, s')"
  obtain y s1 where m: "m s = (y, s1)" by (cases "m s")
  from assms(2) m have k1: "data_queue s1 = data_queue s" "stats s1 = stats s"
    "rel_option R (db_connection s) (db_connection s1)" by (auto simp: keeps_def)
  show "data_queue s' = data_queue s \<and> stats s' = stats s \<and>
        rel_option R (db_connection s) (db_connection s')"
  proof (cases y)
    case (Inl e)
    with a m have "s' = s1" by (simp add: sbind_def)
    with k1 show ?thesis by simp
  next
    case (Inr v)
    with a m have "f v s1 = (x, s')" by (simp add: sbind_def)
    with assms(3)[of v] have k2: "data_queue s' = data_queue s1" "stats s' = stats s1"
      "rel_option R (db_connection s1) (db_connection s')" by (auto simp: keeps_def)
    from assms(1) have "transp (rel_option R)"
      by (rule option.rel_transp)
    from this k1(3) k2(3) have "rel_option R (db_connection s) (db_connection s')"
      by (rule transpD)
    with k1 k2 show ?thesis by simp
  qed
qed

lemma keeps_slift: "reflp R \<Longrightarrow> keeps R (slift r)"
  by (auto simp: keeps_def slift_def option.rel_refl reflp_def)

lemma keeps_slog: "reflp R \<Longrightarrow> keeps R (slog lv msg)"
  by (auto simp: keeps_def slog_def log_line_def option.rel_refl reflp_def)

lemma keeps_on_connection:
  "(\<And>c x c'. f c = (x, c') \<Longrightarrow> R c c') \<Longrightarrow> keeps R (on_connection f)"
  by (auto simp: keeps_def on_connection_def split: option.splits prod.splits)

lemma untouched_transp: "transp untouched"
  by (auto simp: transp_def untouched_def)

lemma untouched_reflp: "reflp untouched"
  by (auto simp: reflp_def untouched_def)

lemma keeps_lifted: "keeps untouched (slift r)"
  by (rule keeps_slift[OF untouched_reflp])

lemma keeps_logged: "keeps untouched (slog lv msg)"
  by (rule keeps_slog[OF untouched_reflp])

lemma keeps_bound:
  "keeps untouched m \<Longrightarrow> (\<And>v. keeps untouched (f v)) \<Longrightarrow> keeps untouched (sbind m f)"
  by (rule keeps_sbind[OF untouched_transp])

lemma keeps_cursor: "keeps untouched (on_connection db_cursor)"
  by (rule keeps_on_connection) (auto simp: db_cursor_def untouched_def)

lemma keeps_count_equipamento: "keeps untouched (on_connection (count_equipamento k))"
  by (rule keeps_on_connection) (auto simp: count_equipamento_def untouched_def)

lemma keeps_count_sensor: "keeps untouched (on_connection (count_sensor k))"
  by (rule keeps_on_connection) (auto simp: count_sensor_def untouched_def)

lemma keeps_insert_equipamento: "keeps untouched (on_connection (insert_equipamento row))"
  by (rule keeps_on_connection) (auto simp: insert_equipamento_def untouched_def)

lemma keeps_insert_sensor: "keeps untouched (on_connection (insert_sensor row))"
  by (rule keeps_on_connection) (auto simp: insert_sensor_def untouched_def)

lemmas keeps_rules = keeps_bound keeps_lifted keeps_logged keeps_cursor keeps_count_equipamento
  keeps_count_sensor keeps_insert_equipamento keeps_insert_sensor

lemma keeps_equipment: "keeps untouched (get_or_create_equipment r)"
  unfolding get_or_create_equipment_def Let_def
  by (intro keeps_rules) (simp add: keeps_rules)

lemma keeps_sensor: "keeps untouched (get_or_create_sensor r)"
  unfolding get_or_create_sensor_def Let_def
  by (intro keeps_rules) (simp add: keeps_rules)

lemma keeps_prepare: "keeps untouched (prepare_row L r)"
  unfolding prepare_row_def
  by (intro keeps_rules keeps_equipment keeps_sensor)


lemma keeps_weaken: "keeps untouched m \<Longrightarrow> keeps (\<lambda>c c'. True) m"
  unfolding keeps_def
proof (intro allI impI)
  fix s x s' assume k: "\<forall>s x s'. m s = (x, s') \<longrightarrow>
        data_queue s' = data_queue s \<and> stats s' = stats s \<and>
        rel_option untouched (db_connection s) (db_connection s')" and m: "m s = (x, s')"
  then have r: "data_queue s' = data_queue s" "stats s' = stats s"
    "rel_option untouched (db_connection s) (db_connection s')" by blast+
  from r(3) have "rel_option (\<lambda>c c'. True) (db_connection s) (db_connection s')"
    by (rule option.rel_mono_strong) simp
  with r show "data_queue s' = data_queue s \<and> stats s' = stats s \<and>
        rel_option (\<lambda>c c'. True) (db_connection s) (db_connection s')" by simp
qed

lemma keeps_body: "keeps (\<lambda>c c'. True) (insert_body L r)"
  unfolding insert_body_def
  by (intro keeps_sbind keeps_on_connection keeps_weaken[OF keeps_prepare])
     (simp_all add: transp_def)

lemma insert_queue [simp]: "data_queue (snd (insert_sensor_data L now s r)) = data_queue s"
proof -
  obtain x s1 where b: "insert_body L r s = (x, s1)" by (cases "insert_body L r s")
  with keeps_body[of L r] have "data_queue s1 = data_queue s" by (auto simp: keeps_def)
  with b show ?thesis
    by (cases x) (auto simp: insert_sensor_data_def log_line_def Let_def split: option.splits)
qed

lemma insert_all_queue [simp]: "data_queue (snd (insert_all L now s rs k)) = data_queue s"
proof (induction rs arbitrary: s k)
  case Nil
  then show ?case by simp
next
  case (Cons r rs)
  show ?case
  proof (cases "insert_sensor_data L now s r")
    case (Pair res s')
    with insert_queue[of L now s r] have q: "data_queue s' = data_queue s" by simp
    show ?thesis
    proof (cases res)
      case (Inl e)
      with Pair q show ?thesis by simp
    next
      case (Inr ok)
      with Pair q Cons.IH[of s'] show ?thesis by simp
    qed
  qed
qed

lemma collect_batch_eq:
  "collect_batch n q = (take n (items q), q\<lparr>items := drop n (items q)\<rparr>)"
proof (induction n arbitrary: q)
  case 0
  then show ?case by simp
next
  case (Suc n)
  show ?case
  proof (cases "items q")
    case Nil
    then show ?thesis by (simp add: queue_empty_def qsize_def)
  next
    case (Cons x xs)
    then show ?thesis
      by (simp add: queue_empty_def qsize_def queue_get_def Suc.IH)
  qed
qed

lemma pass_queue:
  "items (data_queue (processing_pass L now s)) = drop batch_insert_size (items (data_queue s))"
proof -
  let ?q = "(data_queue s)\<lparr>items := drop batch_insert_size (items (data_queue s))\<rparr>"
  let ?b = "take batch_insert_size (items (data_queue s))"
  obtain res s' where r: "insert_all L now (s\<lparr>data_queue := ?q\<rparr>) ?b 0 = (res, s')"
    by (cases "insert_all L now (s\<lparr>data_queue := ?q\<rparr>) ?b 0")
  with insert_all_queue[of L now "s\<lparr>data_queue := ?q\<rparr>" ?b 0] have "data_queue s' = ?q" by simp
  with r show ?thesis
    by (cases res) (simp_all add: processing_pass_def collect_batch_eq log_line_def)
qed

text \<open>When the row is ready and the store still has a failure to give, the procedure is
  called once and raises.\<close>

lemma insert_body_fails:
  assumes "db_connection s = Some c" "0 < sp_failures c" "prepare_row L r s = (Inr row, s1)"
  shows "\<exists>c1. db_connection s1 = Some c1 \<and> untouched c c1 \<and>
           data_queue s1 = data_queue s \<and> stats s1 = stats s \<and>
           insert_body L r s =
             (Inl DatabaseError,
              s1\<lparr>db_connection := Some (c1\<lparr>sp_failures := sp_failures c1 - 1,
                                              sp_calls := sp_calls c1 + 1\<rparr>)\<rparr>)"
proof -
  from keeps_prepare[of L r] assms(3)
  have k: "data_queue s1 = data_queue s" "stats s1 = stats s"
    "rel_option untouched (db_connection s) (db_connection s1)" by (auto simp: keeps_def)
  from k(3) assms(1) obtain c1 where c1: "db_connection s1 = Some c1" "untouched c c1"
    by (cases "db_connection s1") auto
  from c1(2) assms(2) have f: "0 < sp_failures c1" by (simp add: untouched_def)
  have "insert_body L r s =
          (Inl DatabaseError,
           s1\<lparr>db_connection := Some (c1\<lparr>sp_failures := sp_failures c1 - 1,
                                           sp_calls := sp_calls c1 + 1\<rparr>)\<rparr>)"
    using assms(3) c1(1) f
    by (simp add: insert_body_def sbind_def on_connection_def db_callproc_def)
  with c1 k show ?thesis by blast
qed

text \<open>
  Claim C4, as the code has it. When \<^verbatim>\<open>insert_sensor_data\<close> gets as far as the stored
  procedure (the statements before it raise nothing and hand it the row) and the store
  fails transiently, the procedure is called exactly once and not again, whatever
  \<open>max_retries\<close> says: the transaction is rolled back, \<open>failed_inserts\<close> grows by one,
  the call answers \<^verbatim>\<open>False\<close> and the queue is left alone. A pass of the batch loop removes
  the readings it took from the queue and puts none back.
\<close>

theorem failed_insert_attempted_once:
  assumes "db_connection s = Some c" "0 < sp_failures c"
    and "prepare_row L reading s = (Inr row, s1)"
  shows "\<exists>s' c'. insert_sensor_data L now s reading = (Inr False, s') \<and>
           failed_inserts (stats s') = failed_inserts (stats s) + 1 \<and>
           total_records (stats s') = total_records (stats s) \<and>
           data_queue s' = data_queue s \<and>
           db_connection s' = Some c' \<and>
           working c' = durable c \<and> durable c' = durable c \<and>
           rollbacks c' = rollbacks c + 1 \<and>
           sp_calls c' = sp_calls c + 1 \<and>
           sp_failures c' = sp_failures c - 1 \<and>
           items (data_queue (processing_pass L now s)) = drop batch_insert_size (items (data_queue s))"
proof -
  from insert_body_fails[OF assms] obtain c1 where
    b: "db_connection s1 = Some c1" "untouched c c1"
       "data_queue s1 = data_queue s" "stats s1 = stats s"
       "insert_body L reading s =
          (Inl DatabaseError,
           s1\<lparr>db_connection := Some (c1\<lparr>sp_failures := sp_failures c1 - 1,
                                           sp_calls := sp_calls c1 + 1\<rparr>)\<rparr>)" by blast
  show ?thesis
    using b pass_queue[of L now s]
    by (simp add: insert_sensor_data_def log_line_def db_rollback_def untouched_def Let_def)
qed

lemma prepare_flaky:
  "prepare_row lib0 reading_ok flaky_service =
     (Inr row_ok,
      flaky_service
        \<lparr>db_connection := Some (flaky_conn
            \<lparr>working := \<lparr>T_EQUIPAMENTO = [(''A_EQ'', ''Unknown'', ''Unknown'')],
                          T_SENSOR = [(''SENS_A'', ''ESP32_Multi'', ''Mixed'')],
                          T_MEDICAO = []\<rparr>\<rparr>),
          logged := logged flaky_service @
            [(INFO, ''Novo equipamento criado''), (INFO, ''Novo sensor criado'')]\<rparr>)"
  by (simp add: prepare_row_def sbind_def slift_def slog_def on_connection_def db_cursor_def
      get_or_create_equipment_def get_or_create_sensor_def
      count_equipamento_def count_sensor_def insert_equipamento_def insert_sensor_def
      procedure_row_def vibration_total_def reading_ok_def flaky_conn_def flaky_service_def
      init_service_def row_ok_def log_line_def
      empty_tables_def py_replace_def Let_def)

text \<open>The hypotheses of C4 hold for a connected service whose store fails once.\<close>

theorem failed_insert_witness:
  "db_connection flaky_service = Some flaky_conn \<and> 0 < sp_failures flaky_conn \<and>
   fst (prepare_row lib0 reading_ok flaky_service) = Inr row_ok \<and>
   (\<exists>s' c'. insert_sensor_data lib0 0 flaky_service reading_ok = (Inr False, s') \<and>
           failed_inserts (stats s') = failed_inserts (stats flaky_service) + 1 \<and>
           total_records (stats s') = total_records (stats flaky_service) \<and>
           data_queue s' = data_queue flaky_service \<and>
           db_connection s' = Some c' \<and>
           working c' = durable flaky_conn \<and> durable c' = durable flaky_conn \<and>
           rollbacks c' = rollbacks flaky_conn + 1 \<and>
           sp_calls c' = sp_calls flaky_conn + 1 \<and>
           sp_failures c' = sp_failures flaky_conn - 1 \<and>
           items (data_queue (processing_pass lib0 0 flaky_service)) =
             drop batch_insert_size (items (data_queue flaky_service)))"
proof -
  have h1: "db_connection flaky_service = Some flaky_conn" by (simp add: flaky_service_def)
  have h2: "0 < sp_failures flaky_conn" by (simp add: flaky_conn_def)
  have h3: "fst (prepare_row lib0 reading_ok flaky_service) = Inr row_ok"
    by (simp add: prepare_flaky)
  from failed_insert_attempted_once[OF h1 h2 prepare_flaky, of 0] h1 h2 h3 show ?thesis by blast
qed

lemma insert_flaky:
  "insert_sensor_data lib0 0 flaky_service reading_ok =
     (Inr False,
      flaky_service
        \<lparr>db_connection := Some (flaky_conn\<lparr>sp_failures := 0, sp_calls := 1, rollbacks := 1\<rparr>),
          stats := (stats flaky_service)\<lparr>failed_inserts := 1\<rparr>,
          logged := logged flaky_service @
            [(INFO, ''Novo equipamento criado''), (INFO, ''Novo sensor criado''),
             (ERROR, ''Erro ao inserir dados no banco'')]\<rparr>)"
  by (simp add: insert_sensor_data_def insert_body_def sbind_def prepare_flaky)
     (simp add: on_connection_def db_callproc_def db_rollback_def log_line_def Let_def
        flaky_conn_def flaky_service_def init_service_def)

text \<open>
  Claim C4 as stated fails: with \<open>max_retries = 3\<close> and a store that fails exactly once,
  a first retry would succeed, yet the insert answers \<^verbatim>\<open>False\<close> after a single call
  of the procedure and the reading is gone from the queue.
\<close>

theorem no_retry_counterexample:
  "max_retries = 3 \<and>
   fst (insert_sensor_data lib0 0 flaky_service reading_ok) = Inr False \<and>
   map_option sp_calls (db_connection (snd (insert_sensor_data lib0 0 flaky_service reading_ok))) = Some 1 \<and>
   map_option sp_failures (db_connection (snd (insert_sensor_data lib0 0 flaky_service reading_ok))) = Some 0 \<and>
   items (data_queue (processing_pass lib0 0 flaky_service)) = []"
  by (simp add: insert_flaky max_retries_def pass_queue batch_insert_size_def)
     (simp add: flaky_service_def)

section \<open>Verified properties of the ETL pipeline\<close>

subsection \<open>The cycle and the pipeline status\<close>

lemma future_nrows: "nrows (snd (future_check P t now df)) = nrows df"
  by (auto simp: future_check_def assign_def split: option.splits sum.splits)

lemma perform_nrows [simp]: "nrows (snd (perform_data_quality_checks P t now df)) = nrows df"
proof -
  obtain r d where f: "future_check P t now df = (r, d)" by (cases "future_check P t now df")
  with future_nrows[of P t now df] have "nrows d = nrows df" by simp
  with f show ?thesis
    by (cases r; cases "temperature_check t df")
       (simp_all add: perform_data_quality_checks_def Let_def)
qed

lemma over_20_percent: "(real n * 0.2 < real a) = (n < 5 * a)"
proof -
  have "(real n * 0.2 < real a) = (real n < real (5 * a))" by (simp add: field_simps)
  then show ?thesis by (simp only: of_nat_less_iff)
qed

lemma critical_failures_iff:
  "(critical_failures checks df \<noteq> []) = (\<exists>c \<in> set checks. \<not> passed c \<and> nrows df < 5 * affected_records c)"
  by (auto simp: critical_failures_def filter_empty_conv over_20_percent)

lemma cycle_status [simp]:
  "pipeline_status (metrics (snd (run_etl_cycle E p))) = pipeline_status (metrics p)"
  by (auto simp: run_etl_cycle_def update_metrics_def Let_def split: prod.splits)

lemma cycle_running [simp]: "etl_running (snd (run_etl_cycle E p)) = etl_running p"
  by (auto simp: run_etl_cycle_def Let_def split: prod.splits)

lemma loop_status: "pipeline_status (metrics (processing_loop p Es)) = pipeline_status (metrics p)"
  by (induction Es arbitrary: p) auto

text \<open>
  Claim C2, as the code has it. No cycle changes the pipeline status, whether the quality
  gate rejects it or not, and neither does any run of cycles: the status that \<^verbatim>\<open>start\<close>
  set to \<^verbatim>\<open>RUNNING\<close> stays \<^verbatim>\<open>RUNNING\<close>. The code has no \<^verbatim>\<open>DEGRADED\<close> status and
  counts no consecutive rejections; a rejected cycle only adds one to \<open>errors_count\<close>.
\<close>

theorem status_never_degraded:
  "pipeline_status (metrics (snd (run_etl_cycle E p))) = pipeline_status (metrics p) \<and>
   pipeline_status (metrics (processing_loop p Es)) = pipeline_status (metrics p) \<and>
   pipeline_status (metrics (processing_loop (snd (start now True p)) Es)) = ''RUNNING''"
  by (simp add: loop_status start_def)

lemma to_datetime_time [simp]: "to_datetime pd0 (TimeCol aware ts) = Inr (TimeCol aware ts)"
  by (simp add: to_datetime_def pd0_def to_datetime0_def)

lemma hot_checks:
  "critical_failures (fst (perform_data_quality_checks pd0 101 102 hot_window))
     (snd (perform_data_quality_checks pd0 101 102 hot_window)) \<noteq> []"
  by (simp add: critical_failures_iff perform_data_quality_checks_def temperature_check_def
      duplicate_check_def future_check_def null_check_def hot_window_def bnd_def assign_def isnull_sum_def)

lemma cycle_empty: "df_empty (extracted E) \<Longrightarrow> run_etl_cycle E p = (True, p)"
  by (simp add: run_etl_cycle_def)

lemma cycle_rejected:
  assumes "\<not> df_empty (extracted E)"
    and "perform_data_quality_checks (pd E) (clock_checks E) (clock_future E) (extracted E) = (checks, df')"
    and "critical_failures checks df' \<noteq> []"
  shows "run_etl_cycle E p =
           (False, p\<lparr>data_quality_checks := data_quality_checks p @ checks,
                     metrics := (metrics p)\<lparr>errors_count := errors_count (metrics p) + 1\<rparr>\<rparr>)"
  using assms by (simp add: run_etl_cycle_def Let_def)

lemma cycle_accepted:
  assumes "\<not> df_empty (extracted E)"
    and "perform_data_quality_checks (pd E) (clock_checks E) (clock_future E) (extracted E) = (checks, df')"
    and "critical_failures checks df' = []"
  shows "fst (run_etl_cycle E p) = True \<and>
         performed (snd (run_etl_cycle E p)) =
           performed p @ [Transform, Aggregate, Predict]
             @ (if aggregations_of E (clean_and_transform_data (pd E) df') \<noteq> [] then [Load] else [])
             @ [Export] \<and>
         records_processed (metrics (snd (run_etl_cycle E p))) =
           records_processed (metrics p) + int (nrows (extracted E)) \<and>
         errors_count (metrics (snd (run_etl_cycle E p))) = errors_count (metrics p)"
proof -
  from assms(2) perform_nrows[of "pd E" "clock_checks E" "clock_future E" "extracted E"]
  have n: "nrows df' = nrows (extracted E)" by simp
  show ?thesis
    using assms n by (simp add: run_etl_cycle_def update_metrics_def Let_def)
qed

lemma hot_rejected:
  "fst (run_etl_cycle (env_of hot_window) p) = False \<and>
   errors_count (metrics (snd (run_etl_cycle (env_of hot_window) p))) = errors_count (metrics p) + 1"
proof -
  have e: "\<not> df_empty hot_window" by (simp add: df_empty_def hot_window_def)
  obtain cs d where pq: "perform_data_quality_checks pd0 101 102 hot_window = (cs, d)"
    by (cases "perform_data_quality_checks pd0 101 102 hot_window")
  with hot_checks have "critical_failures cs d \<noteq> []" by simp
  with e pq show ?thesis by (simp add: run_etl_cycle_def env_of_def)
qed

text \<open>
  Claim C2 as stated fails: after \<^verbatim>\<open>start\<close> and three cycles in a row that the quality
  gate rejects (the window's only temperature is out of range), the status is
  \<^verbatim>\<open>RUNNING\<close>, not \<^verbatim>\<open>DEGRADED\<close>.
\<close>

theorem three_rejections_stay_running_counterexample:
  "fst (run_etl_cycle (env_of hot_window) (snd (start 0 True init_pipeline))) = False \<and>
   errors_count (metrics (processing_loop (snd (start 0 True init_pipeline))
       [env_of hot_window, env_of hot_window, env_of hot_window])) = 3 \<and>
   pipeline_status (metrics (processing_loop (snd (start 0 True init_pipeline))
       [env_of hot_window, env_of hot_window, env_of hot_window])) = ''RUNNING'' \<and>
   pipeline_status (metrics (processing_loop (snd (start 0 True init_pipeline))
       [env_of hot_window, env_of hot_window, env_of hot_window])) \<noteq> ''DEGRADED''"
  by (simp add: hot_rejected loop_status) (simp add: start_def init_pipeline_def)

text \<open>
  Claim C5, as the code has it. An empty window ends the cycle at once with success and
  leaves the pipeline as it was: nothing is checked, transformed, aggregated or exported.
  For a window that is not empty, the cycle is aborted (it answers \<^verbatim>\<open>False\<close>, runs no
  later stage, leaves \<open>records_processed\<close> alone and adds one to \<open>errors_count\<close>: the
  state changes in the recorded checks and that counter only) exactly when some check
  failed with more affected records than 20% of the rows; otherwise it runs transform,
  aggregation, predictions, load (when there is a view) and export, and adds the rows to
  \<open>records_processed\<close>. The threshold is stated over the naturals:
  \<open>nrows < 5 * affected_records\<close>. \<open>checks\<close> and \<open>df'\<close> name what the quality checks
  return for the window.
\<close>

theorem cycle_aborts_iff_critical:
  assumes "perform_data_quality_checks (pd E) (clock_checks E) (clock_future E) (extracted E) = (checks, df')"
  shows "if df_empty (extracted E) then run_etl_cycle E p = (True, p)
         else if \<exists>c \<in> set checks. \<not> passed c \<and> nrows (extracted E) < 5 * affected_records c
         then run_etl_cycle E p =
                (False, p\<lparr>data_quality_checks := data_quality_checks p @ checks,
                          metrics := (metrics p)\<lparr>errors_count := errors_count (metrics p) + 1\<rparr>\<rparr>)
         else fst (run_etl_cycle E p) = True \<and>
              performed (snd (run_etl_cycle E p)) =
                performed p @ [Transform, Aggregate, Predict]
                  @ (if aggregations_of E (clean_and_transform_data (pd E) df') \<noteq> [] then [Load] else [])
                  @ [Export] \<and>
              records_processed (metrics (snd (run_etl_cycle E p))) =
                records_processed (metrics p) + int (nrows (extracted E)) \<and>
              errors_count (metrics (snd (run_etl_cycle E p))) = errors_count (metrics p)"
proof -
  from assms perform_nrows[of "pd E" "clock_checks E" "clock_future E" "extracted E"]
  have n: "nrows df' = nrows (extracted E)" by simp
  show ?thesis
  proof (cases "df_empty (extracted E)")
    case True
    then show ?thesis by (simp add: cycle_empty)
  next
    case False
    show ?thesis
    proof (cases "critical_failures checks df' = []")
      case True
      with critical_failures_iff[of checks df'] n
      have ne: "\<not> (\<exists>c \<in> set checks. \<not> passed c \<and> nrows (extracted E) < 5 * affected_records c)"
        by simp
      from cycle_accepted[OF False assms True, of p] show ?thesis
        by (simp only: False ne if_False)
    next
      case c: False
      with critical_failures_iff[of checks df'] n
      have ex: "\<exists>c \<in> set checks. \<not> passed c \<and> nrows (extracted E) < 5 * affected_records c"
        by simp
      from cycle_rejected[OF False assms c, of p] show ?thesis
        by (simp only: False ex if_False if_True)
    qed
  qed
qed

lemma empty_checks:
  "perform_data_quality_checks pd0 101 102 empty_window =
     ([null_check 101 empty_window], empty_window)"
  by (simp add: perform_data_quality_checks_def temperature_check_def duplicate_check_def
      future_check_def empty_window_def)

lemma good_checks:
  "critical_failures (fst (perform_data_quality_checks pd0 101 102 good_window))
     (snd (perform_data_quality_checks pd0 101 102 good_window)) = []"
  by (simp add: critical_failures_def perform_data_quality_checks_def temperature_check_def
      duplicate_check_def future_check_def null_check_def good_window_def assign_def isnull_sum_def)

text \<open>C5 at the window with the out-of-range temperature, which is rejected, at a window
  of two clean rows, which is accepted, and at the empty window.\<close>

theorem cycle_aborts_witness:
  "(\<exists>checks df'.
      perform_data_quality_checks (pd (env_of hot_window)) (clock_checks (env_of hot_window))
        (clock_future (env_of hot_window)) (extracted (env_of hot_window)) = (checks, df') \<and>
      \<not> df_empty (extracted (env_of hot_window)) \<and>
      (\<exists>c \<in> set checks. \<not> passed c \<and> nrows (extracted (env_of hot_window)) < 5 * affected_records c) \<and>
      run_etl_cycle (env_of hot_window) init_pipeline =
        (False, init_pipeline\<lparr>data_quality_checks := data_quality_checks init_pipeline @ checks,
           metrics := (metrics init_pipeline)\<lparr>errors_count := errors_count (metrics init_pipeline) + 1\<rparr>\<rparr>)) \<and>
   (\<exists>checks df'.
      perform_data_quality_checks (pd (env_of good_window)) (clock_checks (env_of good_window))
        (clock_future (env_of good_window)) (extracted (env_of good_window)) = (checks, df') \<and>
      \<not> df_empty (extracted (env_of good_window)) \<and>
      \<not> (\<exists>c \<in> set checks. \<not> passed c \<and> nrows (extracted (env_of good_window)) < 5 * affected_records c) \<and>
      fst (run_etl_cycle (env_of good_window) init_pipeline) = True \<and>
      performed (snd (run_etl_cycle (env_of good_window) init_pipeline)) =
        [Transform, Aggregate, Predict, Export] \<and>
      records_processed (metrics (snd (run_etl_cycle (env_of good_window) init_pipeline))) = 2) \<and>
   perform_data_quality_checks (pd (env_of empty_window)) (clock_checks (env_of empty_window))
        (clock_future (env_of empty_window)) (extracted (env_of empty_window)) =
     ([null_check 101 empty_window], empty_window) \<and>
   df_empty (extracted (env_of empty_window)) \<and>
   run_etl_cycle (env_of empty_window) init_pipeline = (True, init_pipeline)"
proof -
  let ?E = "env_of hot_window"
  let ?G = "env_of good_window"
  let ?Z = "env_of empty_window"
  have h1: "\<not> df_empty (extracted ?E)" by (simp add: env_of_def df_empty_def hot_window_def)
  obtain checks df' where h2:
    "perform_data_quality_checks (pd ?E) (clock_checks ?E) (clock_future ?E) (extracted ?E) = (checks, df')"
    by (cases "perform_data_quality_checks (pd ?E) (clock_checks ?E) (clock_future ?E) (extracted ?E)")
  have n: "nrows df' = nrows (extracted ?E)"
    using h2 perform_nrows[of "pd ?E" "clock_checks ?E" "clock_future ?E" "extracted ?E"] by simp
  have "critical_failures checks df' \<noteq> []"
    using hot_checks h2 by (simp add: env_of_def)
  then have c: "\<exists>c \<in> set checks. \<not> passed c \<and> nrows (extracted ?E) < 5 * affected_records c"
    using n by (simp add: critical_failures_iff)
  from cycle_aborts_iff_critical[OF h2, of init_pipeline] h1 c
  have r: "run_etl_cycle ?E init_pipeline =
        (False, init_pipeline\<lparr>data_quality_checks := data_quality_checks init_pipeline @ checks,
           metrics := (metrics init_pipeline)\<lparr>errors_count := errors_count (metrics init_pipeline) + 1\<rparr>\<rparr>)"
    by simp
  have g1: "\<not> df_empty (extracted ?G)" by (simp add: env_of_def df_empty_def good_window_def)
  obtain gchecks gdf where g2:
    "perform_data_quality_checks (pd ?G) (clock_checks ?G) (clock_future ?G) (extracted ?G) = (gchecks, gdf)"
    by (cases "perform_data_quality_checks (pd ?G) (clock_checks ?G) (clock_future ?G) (extracted ?G)")
  have gn: "nrows gdf = nrows (extracted ?G)"
    using g2 perform_nrows[of "pd ?G" "clock_checks ?G" "clock_future ?G" "extracted ?G"] by simp
  have "critical_failures gchecks gdf = []"
    using good_checks g2 by (simp add: env_of_def)
  then have gc: "\<not> (\<exists>c \<in> set gchecks. \<not> passed c \<and> nrows (extracted ?G) < 5 * affected_records c)"
    using gn critical_failures_iff[of gchecks gdf] by simp
  have gi: "performed init_pipeline = []" "records_processed (metrics init_pipeline) = 0"
    "aggregations_of ?G (clean_and_transform_data (pd ?G) gdf) = []"
    "nrows (extracted ?G) = 2"
    by (simp_all add: init_pipeline_def env_of_def good_window_def)
  from cycle_aborts_iff_critical[OF g2, of init_pipeline]
  have "fst (run_etl_cycle ?G init_pipeline) = True \<and>
        performed (snd (run_etl_cycle ?G init_pipeline)) =
          performed init_pipeline @ [Transform, Aggregate, Predict]
            @ (if aggregations_of ?G (clean_and_transform_data (pd ?G) gdf) \<noteq> [] then [Load] else [])
            @ [Export] \<and>
        records_processed (metrics (snd (run_etl_cycle ?G init_pipeline))) =
          records_processed (metrics init_pipeline) + int (nrows (extracted ?G)) \<and>
        errors_count (metrics (snd (run_etl_cycle ?G init_pipeline))) = errors_count (metrics init_pipeline)"
    by (simp only: g1 gc if_False)
  with gi have gr: "fst (run_etl_cycle ?G init_pipeline) = True"
    "performed (snd (run_etl_cycle ?G init_pipeline)) = [Transform, Aggregate, Predict, Export]"
    "records_processed (metrics (snd (run_etl_cycle ?G init_pipeline))) = 2"
    by simp_all
  have z1: "perform_data_quality_checks (pd ?Z) (clock_checks ?Z) (clock_future ?Z) (extracted ?Z) =
     ([null_check 101 empty_window], empty_window)"
    by (simp add: env_of_def empty_checks)
  have z2: "df_empty (extracted ?Z)" by (simp add: env_of_def df_empty_def empty_window_def)
  from cycle_aborts_iff_critical[OF z1, of init_pipeline] z2
  have z3: "run_etl_cycle ?Z init_pipeline = (True, init_pipeline)" by simp
  from h1 h2 c r have a:
    "\<exists>checks df'.
      perform_data_quality_checks (pd ?E) (clock_checks ?E) (clock_future ?E) (extracted ?E) = (checks, df') \<and>
      \<not> df_empty (extracted ?E) \<and>
      (\<exists>c \<in> set checks. \<not> passed c \<and> nrows (extracted ?E) < 5 * affected_records c) \<and>
      run_etl_cycle ?E init_pipeline =
        (False, init_pipeline\<lparr>data_quality_checks := data_quality_checks init_pipeline @ checks,
           metrics := (metrics init_pipeline)\<lparr>errors_count := errors_count (metrics init_pipeline) + 1\<rparr>\<rparr>)"
    by blast
  from g1 g2 gc gr have b:
    "\<exists>checks df'.
      perform_data_quality_checks (pd ?G) (clock_checks ?G) (clock_future ?G) (extracted ?G) = (checks, df') \<and>
      \<not> df_empty (extracted ?G) \<and>
      \<not> (\<exists>c \<in> set checks. \<not> passed c \<and> nrows (extracted ?G) < 5 * affected_records c) \<and>
      fst (run_etl_cycle ?G init_pipeline) = True \<and>
      performed (snd (run_etl_cycle ?G init_pipeline)) = [Transform, Aggregate, Predict, Export] \<and>
      records_processed (metrics (snd (run_etl_cycle ?G init_pipeline))) = 2"
    by blast
  from a b z1 z2 z3 show ?thesis by blast
qed

text \<open>
  Claim C5 as stated fails for the empty window: no check is critical, yet the cycle
  returns at once and runs neither transform nor aggregation nor export.
\<close>

theorem empty_window_counterexample:
  "critical_failures
     (fst (perform_data_quality_checks pd0 101 102 empty_window))
     (snd (perform_data_quality_checks pd0 101 102 empty_window)) = [] \<and>
   run_etl_cycle (env_of empty_window) init_pipeline = (True, init_pipeline) \<and>
   performed (snd (run_etl_cycle (env_of empty_window) init_pipeline)) = []"
  by (simp add: run_etl_cycle_def env_of_def df_empty_def empty_window_def init_pipeline_def
      critical_failures_def perform_data_quality_checks_def temperature_check_def
      duplicate_check_def future_check_def null_check_def isnull_sum_def)

subsection \<open>Starting twice\<close>

text \<open>
  Claim C9, as the code has it. \<^verbatim>\<open>start\<close> on a running pipeline is not an error and
  leaves the status \<^verbatim>\<open>RUNNING\<close>, but it is not a no-op: it resets \<open>start_time\<close> and,
  when the database answers, launches one more processing loop and one more monitoring
  loop. When the database does not answer it returns \<^verbatim>\<open>False\<close> and only \<open>start_time\<close>
  has changed.
\<close>

theorem start_again_launches_loops:
  assumes "pipeline_status (metrics p) = ''RUNNING''" "etl_running p"
  shows "start now True p =
           (True, p\<lparr>start_time := Some now,
                    processing_threads := processing_threads p + 1,
                    monitoring_threads := monitoring_threads p + 1\<rparr>) \<and>
         start now False p = (False, p\<lparr>start_time := Some now\<rparr>) \<and>
         pipeline_status (metrics (snd (start now db_ok p))) = ''RUNNING'' \<and>
         etl_running (snd (start now db_ok p))"
proof -
  have m: "(metrics p)\<lparr>pipeline_status := ''RUNNING''\<rparr> = metrics p"
    using assms(1) by (intro PipelineMetrics.equality) simp_all
  have r: "p\<lparr>etl_running := True\<rparr> = p"
    using assms(2) by (intro pipeline.equality) simp_all
  have "p\<lparr>start_time := Some now, etl_running := True,
          metrics := (metrics p)\<lparr>pipeline_status := ''RUNNING''\<rparr>,
          processing_threads := processing_threads p + 1,
          monitoring_threads := monitoring_threads p + 1\<rparr> =
        p\<lparr>start_time := Some now,
          processing_threads := processing_threads p + 1,
          monitoring_threads := monitoring_threads p + 1\<rparr>"
    using assms by (intro pipeline.equality) simp_all
  then show ?thesis
    using assms by (simp add: start_def Let_def)
qed

text \<open>The hypotheses of C9 hold for the pipeline after a first \<^verbatim>\<open>start\<close>.\<close>

theorem start_again_witness:
  "pipeline_status (metrics (snd (start 0 True init_pipeline))) = ''RUNNING'' \<and>
   etl_running (snd (start 0 True init_pipeline)) \<and>
   start 1 True (snd (start 0 True init_pipeline)) =
     (True, (snd (start 0 True init_pipeline))\<lparr>start_time := Some 1,
        processing_threads := processing_threads (snd (start 0 True init_pipeline)) + 1,
        monitoring_threads := monitoring_threads (snd (start 0 True init_pipeline)) + 1\<rparr>) \<and>
   start 1 False (snd (start 0 True init_pipeline)) =
     (False, (snd (start 0 True init_pipeline))\<lparr>start_time := Some 1\<rparr>) \<and>
   pipeline_status (metrics (snd (start 1 True (snd (start 0 True init_pipeline))))) = ''RUNNING'' \<and>
   etl_running (snd (start 1 True (snd (start 0 True init_pipeline))))"
proof -
  have h1: "pipeline_status (metrics (snd (start 0 True init_pipeline))) = ''RUNNING''"
    by (simp add: start_def)
  have h2: "etl_running (snd (start 0 True init_pipeline))"
    by (simp add: start_def)
  from start_again_launches_loops[OF h1 h2, of 1 True] h1 h2 show ?thesis by blast
qed

text \<open>
  Claim C9 as stated fails: a second \<^verbatim>\<open>start\<close> changes the state and leaves two
  processing loops and two monitoring loops where the first left one of each.
\<close>

theorem start_not_idempotent_counterexample:
  "snd (start 1 True (snd (start 0 True init_pipeline))) \<noteq> snd (start 0 True init_pipeline) \<and>
   processing_threads (snd (start 0 True init_pipeline)) = 1 \<and>
   monitoring_threads (snd (start 0 True init_pipeline)) = 1 \<and>
   processing_threads (snd (start 1 True (snd (start 0 True init_pipeline)))) = 2 \<and>
   monitoring_threads (snd (start 1 True (snd (start 0 True init_pipeline)))) = 2"
proof -
  have "processing_threads (snd (start 1 True (snd (start 0 True init_pipeline)))) = 2"
    by (simp add: start_def init_pipeline_def)
  moreover have "processing_threads (snd (start 0 True init_pipeline)) = 1"
    by (simp add: start_def init_pipeline_def)
  moreover have "monitoring_threads (snd (start 1 True (snd (start 0 True init_pipeline)))) = 2"
    by (simp add: start_def init_pipeline_def)
  moreover have "monitoring_threads (snd (start 0 True init_pipeline)) = 1"
    by (simp add: start_def init_pipeline_def)
  ultimately show ?thesis by auto
qed

subsection \<open>The quality checks write to the frame\<close>

lemma map_of_set_col: "map_of (set_col k v al) k' = (if k' = k then Some v else map_of al k')"
  by (induction al) auto

lemma set_col_same: "map_of al k = Some c \<Longrightarrow> set_col k c al = al"
  by (induction al) (auto split: if_splits)

lemma assign_same_iff:
  assumes "map_of (cols df) k = Some c"
  shows "(assign k c' df = df) = (c' = c)"
proof
  assume "assign k c' df = df"
  then have "map_of (cols (assign k c' df)) k = map_of (cols df) k" by simp
  with assms show "c' = c" by (simp add: assign_def map_of_set_col)
next
  assume "c' = c"
  with assms show "assign k c' df = df" by (simp add: assign_def set_col_same)
qed

lemma perform_frame:
  "snd (perform_data_quality_checks P t now df) =
     (case temperature_check t df of
        Inl e \<Rightarrow> df
      | Inr c2 \<Rightarrow> snd (future_check P t now df))"
  by (auto simp: perform_data_quality_checks_def Let_def split: sum.splits prod.splits)

lemma perform_last_error:
  "(\<exists>e. temperature_check t df = Inl e) \<or> (\<exists>e. fst (future_check P t now df) = Inl e) \<Longrightarrow>
   last (fst (perform_data_quality_checks P t now df)) = error_check t"
  by (auto simp: perform_data_quality_checks_def Let_def split: sum.splits prod.splits)

text \<open>
  Claim C10, as the code has it. For a window that has a \<^verbatim>\<open>DATAHORA_MEDICAO\<close> column:
  when the temperature check raises, or \<^verbatim>\<open>pd.to_datetime\<close> raises on the column, the
  frame is left as it was and the last check recorded is \<^verbatim>\<open>QUALITY_CHECK_ERROR\<close>; when
  neither raises, the frame the call leaves behind is the caller's frame with that column
  replaced by its conversion, a datetime column (also when the comparison with the clock
  then raises). The frame holds other values than before exactly when the conversion
  differs from the column it was given.
\<close>

theorem checks_convert_timestamps_in_place:
  assumes "map_of (cols df) ''DATAHORA_MEDICAO'' = Some c"
  shows "case temperature_check t df of
           Inl e \<Rightarrow>
             snd (perform_data_quality_checks P t now df) = df \<and>
             last (fst (perform_data_quality_checks P t now df)) = error_check t
         | Inr c2 \<Rightarrow>
             (case to_datetime P c of
                Inl e \<Rightarrow>
                  snd (perform_data_quality_checks P t now df) = df \<and>
                  last (fst (perform_data_quality_checks P t now df)) = error_check t
              | Inr c' \<Rightarrow>
                  snd (perform_data_quality_checks P t now df) = assign ''DATAHORA_MEDICAO'' c' df \<and>
                  map_of (cols (snd (perform_data_quality_checks P t now df))) ''DATAHORA_MEDICAO''
                    = Some c' \<and>
                  (\<exists>aware ts. c' = TimeCol aware ts) \<and>
                  (snd (perform_data_quality_checks P t now df) = df) = (c' = c))"
proof (cases "temperature_check t df")
  case (Inl e)
  with perform_last_error[of t df P now] show ?thesis by (simp add: perform_frame)
next
  case (Inr c2)
  show ?thesis
  proof (cases "to_datetime P c")
    case (Inl e)
    with assms have f: "future_check P t now df = (Inl e, df)" by (simp add: future_check_def)
    with perform_last_error[of t df P now] Inr Inl show ?thesis by (simp add: perform_frame)
  next
    case r: (Inr c')
    with assms have f: "snd (future_check P t now df) = assign ''DATAHORA_MEDICAO'' c' df"
      by (simp add: future_check_def)
    have ts: "\<exists>aware ts. c' = TimeCol aware ts"
      using r by (auto simp: to_datetime_def split: sum.splits prod.splits)
    from f ts Inr r assign_same_iff[OF assms, of c'] show ?thesis
      by (simp add: perform_frame assign_def map_of_set_col)
  qed
qed

lemma text_converts:
  "to_datetime pd0 (TxtCol [Some ''2024-01-01'']) = Inr (TimeCol False [Some 1704067200000000])"
  by (simp add: to_datetime_def pd0_def to_datetime0_def)

text \<open>The hypothesis of C10 holds for a window that holds its timestamp as text; the frame
  after the checks differs from the frame before.\<close>

theorem checks_convert_witness:
  "map_of (cols text_window) ''DATAHORA_MEDICAO'' = Some (TxtCol [Some ''2024-01-01'']) \<and>
   temperature_check 101 text_window = Inr [] \<and>
   to_datetime pd0 (TxtCol [Some ''2024-01-01'']) = Inr (TimeCol False [Some 1704067200000000]) \<and>
   snd (perform_data_quality_checks pd0 101 102 text_window) =
     assign ''DATAHORA_MEDICAO'' (TimeCol False [Some 1704067200000000]) text_window \<and>
   map_of (cols (snd (perform_data_quality_checks pd0 101 102 text_window))) ''DATAHORA_MEDICAO''
     = Some (TimeCol False [Some 1704067200000000]) \<and>
   snd (perform_data_quality_checks pd0 101 102 text_window) \<noteq> text_window"
proof -
  have h1: "map_of (cols text_window) ''DATAHORA_MEDICAO'' = Some (TxtCol [Some ''2024-01-01''])"
    by (simp add: text_window_def)
  have h2: "temperature_check 101 text_window = Inr []"
    by (simp add: temperature_check_def text_window_def)
  have c: "snd (perform_data_quality_checks pd0 101 102 text_window) =
             assign ''DATAHORA_MEDICAO'' (TimeCol False [Some 1704067200000000]) text_window \<and>
           map_of (cols (snd (perform_data_quality_checks pd0 101 102 text_window))) ''DATAHORA_MEDICAO''
             = Some (TimeCol False [Some 1704067200000000]) \<and>
           (\<exists>aware ts. TimeCol False [Some 1704067200000000] = TimeCol aware ts) \<and>
           (snd (perform_data_quality_checks pd0 101 102 text_window) = text_window) =
             (TimeCol False [Some 1704067200000000] = TxtCol [Some ''2024-01-01''])"
    using checks_convert_timestamps_in_place[OF h1, where t = 101 and P = pd0 and now = 102]
    unfolding h2 text_converts sum.case .
  have ne: "TimeCol False [Some 1704067200000000] \<noteq> TxtCol [Some ''2024-01-01'']" by simp
  from c ne have r: "snd (perform_data_quality_checks pd0 101 102 text_window) =
             assign ''DATAHORA_MEDICAO'' (TimeCol False [Some 1704067200000000]) text_window"
    "map_of (cols (snd (perform_data_quality_checks pd0 101 102 text_window))) ''DATAHORA_MEDICAO''
       = Some (TimeCol False [Some 1704067200000000])"
    "snd (perform_data_quality_checks pd0 101 102 text_window) \<noteq> text_window"
    by blast+
  with h1 h2 text_converts show ?thesis by blast
qed

lemma unparsed_raises:
  "to_datetime pd0 (TxtCol [Some ''n/a'', Some ''n/a'', Some ''n/a'', Some ''n/a'', Some ''n/a''])
     = Inl ValueError"
  by (simp add: to_datetime_def pd0_def to_datetime0_def)

text \<open>
  Claim C10 as stated fails for a window whose \<^verbatim>\<open>DATAHORA_MEDICAO\<close> column holds text
  that is not a date: the conversion raises before the assignment, and the frame comes
  back as it went in.
\<close>

theorem unparsed_timestamps_counterexample:
  "map_of (cols unparsed_window) ''DATAHORA_MEDICAO'' =
     Some (TxtCol [Some ''n/a'', Some ''n/a'', Some ''n/a'', Some ''n/a'', Some ''n/a'']) \<and>
   snd (perform_data_quality_checks pd0 101 102 unparsed_window) = unparsed_window \<and>
   last (fst (perform_data_quality_checks pd0 101 102 unparsed_window)) = error_check 101"
proof -
  have h1: "map_of (cols unparsed_window) ''DATAHORA_MEDICAO'' =
     Some (TxtCol [Some ''n/a'', Some ''n/a'', Some ''n/a'', Some ''n/a'', Some ''n/a''])"
    by (simp add: unparsed_window_def)
  have f: "future_check pd0 101 102 unparsed_window = (Inl ValueError, unparsed_window)"
    using h1 unparsed_raises by (simp add: future_check_def)
  have t: "temperature_check 101 unparsed_window \<noteq> Inl TypeError \<and>
           (\<exists>c2. temperature_check 101 unparsed_window = Inr c2)"
    by (simp add: temperature_check_def unparsed_window_def bnd_def)
  then obtain c2 where c2: "temperature_check 101 unparsed_window = Inr c2" by blast
  from f c2 h1 show ?thesis
    by (simp add: perform_data_quality_checks_def Let_def)
qed

subsection \<open>A window with 15% nulls in one channel\<close>

lemma sum_nulls_absent:
  "ch \<notin> set (map fst al) \<Longrightarrow>
   list_all (\<lambda>(n, c). col_nulls c = (if n = ch then k else 0)) al \<Longrightarrow>
   sum_list (map (\<lambda>(n, c). col_nulls c) al) = 0"
  by (induction al) auto

lemma sum_nulls:
  "distinct (map fst al) \<Longrightarrow>
   list_all (\<lambda>(n, c). col_nulls c = (if n = ch then k else 0)) al \<Longrightarrow>
   sum_list (map (\<lambda>(n, c). col_nulls c) al) = (if ch \<in> set (map fst al) then k else 0)"
proof (induction al)
  case Nil
  then show ?case by simp
next
  case (Cons a al)
  obtain n c where a: "a = (n, c)" by (cases a)
  show ?case
  proof (cases "n = ch")
    case True
    with Cons.prems a have "ch \<notin> set (map fst al)" by simp
    with Cons.prems a sum_nulls_absent[of ch al k] True show ?thesis by simp
  next
    case False
    with Cons a show ?thesis by simp
  qed
qed

lemma isnull_sum_one_channel: "nulls_only_in df ch k \<Longrightarrow> isnull_sum df = k"
  using sum_nulls[of "cols df" ch k] by (simp add: nulls_only_in_def isnull_sum_def)

lemma null_check_name [simp]: "check_name (null_check t df) = ''NULL_VALUES''"
  by (simp add: null_check_def Let_def)

lemma checks_shape:
  assumes "perform_data_quality_checks P t now df = (checks, df')"
  shows "hd checks = null_check t df \<and>
         (\<forall>c \<in> set checks. c = null_check t df \<or> check_name c \<noteq> ''NULL_VALUES'')"
proof -
  have f: "\<forall>c \<in> set (case fst (future_check P t now df) of Inl e \<Rightarrow> [error_check t] | Inr c4 \<Rightarrow> c4).
             check_name c \<noteq> ''NULL_VALUES''"
    by (auto simp: future_check_def error_check_def bnd_def split: option.splits sum.splits)
  have t: "\<forall>c \<in> set (case temperature_check t df of Inl e \<Rightarrow> [error_check t] | Inr c2 \<Rightarrow> c2).
             check_name c \<noteq> ''NULL_VALUES''"
    by (auto simp: temperature_check_def error_check_def bnd_def split: option.splits sum.splits)
  have d: "\<forall>c \<in> set (duplicate_check t df). check_name c \<noteq> ''NULL_VALUES''"
    by (auto simp: duplicate_check_def Let_def split: option.splits)
  obtain r d' where fc: "future_check P t now df = (r, d')" by (cases "future_check P t now df")
  show ?thesis
  proof (cases "temperature_check t df")
    case (Inl e)
    with assms have "checks = [null_check t df, error_check t]"
      by (auto simp: perform_data_quality_checks_def Let_def)
    then show ?thesis by (simp add: error_check_def)
  next
    case (Inr c2)
    with assms fc have "checks = null_check t df # c2 @ duplicate_check t df
        @ (case r of Inl e \<Rightarrow> [error_check t] | Inr c4 \<Rightarrow> c4)"
      by (cases r) (auto simp: perform_data_quality_checks_def Let_def)
    with t d f fc Inr show ?thesis by auto
  qed
qed

text \<open>
  Claim C8. In a window where one channel is null in exactly 15% of the rows
  (\<open>20 * k = 3 * nrows\<close>), no other value is missing and no other check fails, the
  null-ratio check fails with \<open>k\<close> affected records, no check is critical, and the cycle
  goes on through transform, aggregation and export.
\<close>

text \<open>
  Claim C8. In a window where one channel is null in exactly 15% of the rows
  (\<open>20 * k = 3 * nrows\<close>), no other value is missing and no other check fails, the
  null-ratio check fails with \<open>k\<close> affected records, no check is critical, and the cycle
  goes on through transform, aggregation and export.
\<close>

theorem nulls_15_percent_flagged_not_rejected:
  assumes "nulls_only_in (extracted E) ch k"
    and "0 < nrows (extracted E)"
    and "20 * k = 3 * nrows (extracted E)"
    and "perform_data_quality_checks (pd E) (clock_checks E) (clock_future E) (extracted E) = (checks, df')"
    and "\<forall>c \<in> set checks. check_name c \<noteq> ''NULL_VALUES'' \<longrightarrow> passed c"
  shows "hd checks = null_check (clock_checks E) (extracted E) \<and>
         check_name (hd checks) = ''NULL_VALUES'' \<and>
         \<not> passed (hd checks) \<and>
         affected_records (hd checks) = k \<and>
         critical_failures checks df' = [] \<and>
         fst (run_etl_cycle E p) = True \<and>
         performed (snd (run_etl_cycle E p)) =
           performed p @ [Transform, Aggregate, Predict]
             @ (if aggregations_of E (clean_and_transform_data (pd E) df') \<noteq> [] then [Load] else [])
             @ [Export]"
proof -
  let ?df = "extracted E"
  let ?nc = "null_check (clock_checks E) ?df"
  have k: "isnull_sum ?df = k" by (rule isnull_sum_one_channel[OF assms(1)])
  from checks_shape[OF assms(4)]
  have hd: "hd checks = ?nc"
    and shape: "\<forall>c \<in> set checks. c = ?nc \<or> check_name c \<noteq> ''NULL_VALUES''" by auto
  have np: "\<not> passed ?nc"
  proof -
    have "nrows ?df \<le> 10 * k" using assms(2,3) by arith
    then have "real (nrows ?df) \<le> 10 * real k"
      by (metis of_nat_le_iff of_nat_mult of_nat_numeral)
    then show ?thesis by (simp add: null_check_def k)
  qed
  have af: "affected_records ?nc = k" by (simp add: null_check_def k)
  have n: "nrows df' = nrows ?df"
    using assms(4) perform_nrows[of "pd E" "clock_checks E" "clock_future E" ?df] by simp
  have nocrit: "critical_failures checks df' = []"
  proof -
    have "\<not> (nrows df' < 5 * affected_records ?nc)" using assms(3) af n by arith
    with shape assms(5) have "\<not> (\<exists>c \<in> set checks. \<not> passed c \<and> nrows df' < 5 * affected_records c)"
      by auto
    then show ?thesis using critical_failures_iff[of checks df'] by blast
  qed
  have ne: "\<not> df_empty ?df"
    using assms(1,2) by (auto simp: df_empty_def nulls_only_in_def)
  have cn: "check_name ?nc = ''NULL_VALUES''" by (simp add: null_check_def Let_def)
  from cycle_accepted[OF ne assms(4) nocrit, of p] hd np af nocrit cn show ?thesis
    by simp
qed

lemma sparse_checks:
  "perform_data_quality_checks pd0 101 102 sparse_window =
     ([null_check 101 sparse_window,
       \<lparr>check_name = ''DUPLICATES'', passed = True,
        message = ''Registros duplicados: '' @ str_nat 0,
        check_timestamp = 101, affected_records = 0\<rparr>], sparse_window)"
  by (simp add: perform_data_quality_checks_def temperature_check_def duplicate_check_def
      future_check_def sparse_window_def)

text \<open>The hypotheses of C8 hold for a window of 20 rows with three pressures missing.\<close>

text \<open>The hypotheses of C8 hold for a window of 20 rows with three pressures missing.\<close>

theorem nulls_15_percent_witness:
  "nulls_only_in (extracted (env_of sparse_window)) ''VL_PRESSAO'' 3 \<and>
   0 < nrows (extracted (env_of sparse_window)) \<and>
   20 * 3 = 3 * nrows (extracted (env_of sparse_window)) \<and>
   (\<exists>checks df'.
      perform_data_quality_checks (pd (env_of sparse_window)) (clock_checks (env_of sparse_window))
        (clock_future (env_of sparse_window)) (extracted (env_of sparse_window)) = (checks, df') \<and>
      list_all (\<lambda>c. check_name c = ''NULL_VALUES'' \<or> passed c) checks \<and>
      check_name (hd checks) = ''NULL_VALUES'' \<and>
      \<not> passed (hd checks) \<and>
      affected_records (hd checks) = 3 \<and>
      critical_failures checks df' = [] \<and>
      fst (run_etl_cycle (env_of sparse_window) init_pipeline) = True \<and>
      performed (snd (run_etl_cycle (env_of sparse_window) init_pipeline)) =
        [Transform, Aggregate, Predict, Export])"
proof -
  let ?E = "env_of sparse_window"
  let ?checks = "[null_check 101 sparse_window,
       \<lparr>check_name = ''DUPLICATES'', passed = True,
        message = ''Registros duplicados: '' @ str_nat 0,
        check_timestamp = 101, affected_records = 0\<rparr>]"
  have h1: "nulls_only_in (extracted ?E) ''VL_PRESSAO'' 3"
    by (simp add: nulls_only_in_def env_of_def sparse_window_def)
  have h2: "0 < nrows (extracted ?E)" by (simp add: env_of_def sparse_window_def)
  have h3: "20 * 3 = 3 * nrows (extracted ?E)" by (simp add: env_of_def sparse_window_def)
  have h4: "perform_data_quality_checks (pd ?E) (clock_checks ?E) (clock_future ?E) (extracted ?E)
              = (?checks, sparse_window)"
    by (simp add: env_of_def sparse_checks)
  have h5: "\<forall>c \<in> set ?checks. check_name c \<noteq> ''NULL_VALUES'' \<longrightarrow> passed c"
    by simp
  have l: "list_all (\<lambda>c. check_name c = ''NULL_VALUES'' \<or> passed c) ?checks"
    by simp
  have pf: "performed init_pipeline = []" by (simp add: init_pipeline_def)
  have ag: "aggregations_of ?E (clean_and_transform_data (pd ?E) sparse_window) = []"
    by (simp add: env_of_def)
  from nulls_15_percent_flagged_not_rejected[OF h1 h2 h3 h4 h5, of init_pipeline]
  have r: "check_name (hd ?checks) = ''NULL_VALUES''" "\<not> passed (hd ?checks)"
    "affected_records (hd ?checks) = 3" "critical_failures ?checks sparse_window = []"
    "fst (run_etl_cycle ?E init_pipeline) = True"
    "performed (snd (run_etl_cycle ?E init_pipeline)) =
       performed init_pipeline @ [Transform, Aggregate, Predict]
         @ (if aggregations_of ?E (clean_and_transform_data (pd ?E) sparse_window) \<noteq> [] then [Load] else [])
         @ [Export]"
    by blast+
  from r(6) pf ag have pe: "performed (snd (run_etl_cycle ?E init_pipeline)) =
        [Transform, Aggregate, Predict, Export]" by simp
  from h4 l r(1-5) pe have
    "\<exists>checks df'.
      perform_data_quality_checks (pd ?E) (clock_checks ?E) (clock_future ?E) (extracted ?E) = (checks, df') \<and>
      list_all (\<lambda>c. check_name c = ''NULL_VALUES'' \<or> passed c) checks \<and>
      check_name (hd checks) = ''NULL_VALUES'' \<and>
      \<not> passed (hd checks) \<and>
      affected_records (hd checks) = 3 \<and>
      critical_failures checks df' = [] \<and>
      fst (run_etl_cycle ?E init_pipeline) = True \<and>
      performed (snd (run_etl_cycle ?E init_pipeline)) =
        [Transform, Aggregate, Predict, Export]"
    by blast
  with h1 h2 h3 show ?thesis by blast
qed

subsection \<open>Outlier clipping\<close>








lemma fill_column_len [simp]: "col_len (fill_column P n c) = col_len c"
  by (cases c) (auto simp: fillna_def split: option.splits)











lemma permute_len [simp]: "col_len (permute p c) = length p"
  by (cases c) auto












subsection \<open>The example library\<close>

lemma floor_quarters:
  assumes "r < 4"
  shows "\<lfloor>(real m * 4 + real r) / 4\<rfloor> = int m"
proof (rule floor_unique)
  show "of_int (int m) \<le> (real m * 4 + real r) / 4" by simp
  show "(real m * 4 + real r) / 4 < of_int (int m) + 1" using assms by simp
qed

lemma ceiling_quarters:
  assumes "r < 4"
  shows "\<lceil>(real m * 4 + real r) / 4\<rceil> = int m + (if r = 0 then 0 else 1)"
proof (rule ceiling_unique)
  show "of_int (int m + (if r = 0 then 0 else 1)) - 1 < (real m * 4 + real r) / 4"
    using assms by simp
  show "(real m * 4 + real r) / 4 \<le> of_int (int m + (if r = 0 then 0 else 1))"
    using assms by simp
qed

lemma quantile_at:
  assumes "length (sort (present xs)) = Suc k" "q * real k = (real a * 4 + real r) / 4" "r < 4"
  shows "quantile q xs =
           Some (sort (present xs) ! a
                 + (sort (present xs) ! (if r = 0 then a else a + 1) - sort (present xs) ! a)
                   * (real r / 4))"
proof -
  have f: "nat \<lfloor>q * real k\<rfloor> = a"
    by (subst assms(2)) (simp add: floor_quarters[OF assms(3)])
  have c: "nat \<lceil>q * real k\<rceil> = (if r = 0 then a else a + 1)"
    by (subst assms(2)) (simp add: ceiling_quarters[OF assms(3)] nat_add_distrib)
  have p: "q * real k - real a = real r / 4" using assms(2) by (simp add: field_simps)
  show ?thesis
    unfolding quantile_def Let_def using assms(1) f c p by (simp del: of_nat_add)
qed

lemma quantile_25:
  assumes "length (sort (present xs)) = Suc (4 * m + r)" "r < 4"
  shows "quantile 0.25 xs =
           Some (sort (present xs) ! m
                 + (sort (present xs) ! (if r = 0 then m else m + 1) - sort (present xs) ! m)
                   * (real r / 4))"
  by (rule quantile_at[OF assms(1) _ assms(2)]) simp

lemma quantile_75:
  assumes "length (sort (present xs)) = Suc (4 * m + r)" "r < 4"
  shows "quantile 0.75 xs =
           Some (sort (present xs) ! (3 * m + 3 * r div 4)
                 + (sort (present xs) ! (if 3 * r mod 4 = 0 then 3 * m + 3 * r div 4
                                          else 3 * m + 3 * r div 4 + 1)
                    - sort (present xs) ! (3 * m + 3 * r div 4))
                   * (real (3 * r mod 4) / 4))"
proof (rule quantile_at[OF assms(1)])
  have "3 * (4 * m + r) = (3 * m + 3 * r div 4) * 4 + 3 * r mod 4" by presburger
  then have "real (3 * (4 * m + r)) = real ((3 * m + 3 * r div 4) * 4 + 3 * r mod 4)"
    by (rule arg_cong)
  then show "0.75 * real (4 * m + r) = (real (3 * m + 3 * r div 4) * 4 + real (3 * r mod 4)) / 4"
    by (simp only: of_nat_add of_nat_mult) simp
  show "3 * r mod 4 < 4" by simp
qed

text \<open>The four data points that enter the quartiles of a sorted list, and the facts about
  them that the clipping needs.\<close>

lemma quartile_facts:
  assumes srt: "sorted s" and len: "length s = Suc (4 * m + r)" and r: "r < 4"
  shows "let a = s ! m; b = s ! (if r = 0 then m else m + 1);
             c = s ! (3 * m + 3 * r div 4);
             d = s ! (if 3 * r mod 4 = 0 then 3 * m + 3 * r div 4 else 3 * m + 3 * r div 4 + 1);
             Q1 = a + (b - a) * (real r / 4);
             Q3 = c + (d - c) * (real (3 * r mod 4) / 4)
         in Q1 \<le> Q3 \<and> Q1 - 3 * (Q3 - Q1) \<le> a \<and> d \<le> Q3 + 3 * (Q3 - Q1) \<and>
            a \<le> b \<and> b \<le> d \<and> a \<le> c \<and> c \<le> d"
proof -
  have mono: "\<And>i j. i \<le> j \<Longrightarrow> j < length s \<Longrightarrow> s ! i \<le> s ! j"
    using srt by (rule sorted_nth_mono)
  from r consider "r = 0" | "r = 1" | "r = 2" | "r = 3" by linarith
  then show ?thesis
  proof cases
    case 1
    have "s ! m \<le> s ! (3 * m)" using mono[of m "3 * m"] len 1 by simp
    then show ?thesis by (simp add: 1 Let_def)
  next
    case 2
    have ab: "s ! m \<le> s ! (m + 1)" using mono[of m "m + 1"] len 2 by simp
    have cd: "s ! (3 * m) \<le> s ! (3 * m + 1)" using mono[of "3 * m" "3 * m + 1"] len 2 by simp
    show ?thesis
    proof (cases "m = 0")
      case True
      from ab show ?thesis by (simp add: 2 True Let_def field_simps)
    next
      case False
      then have bc: "s ! (m + 1) \<le> s ! (3 * m)" using mono[of "m + 1" "3 * m"] len 2 by simp
      from ab bc cd show ?thesis by (simp add: 2 Let_def field_simps)
    qed
  next
    case 3
    have ab: "s ! m \<le> s ! (m + 1)" using mono[of m "m + 1"] len 3 by simp
    have bc: "s ! (m + 1) \<le> s ! (3 * m + 1)" using mono[of "m + 1" "3 * m + 1"] len 3 by simp
    have cd: "s ! (3 * m + 1) \<le> s ! (3 * m + 1 + 1)" using mono[of "3 * m + 1" "3 * m + 1 + 1"] len 3 by simp
    have e: "3 * 2 div 4 = (1::nat)" "3 * 2 mod 4 = (2::nat)" by simp_all
    from ab bc cd show ?thesis by (simp add: 3 e Let_def field_simps)
  next
    case 4
    have ab: "s ! m \<le> s ! (m + 1)" using mono[of m "m + 1"] len 4 by simp
    have bc: "s ! (m + 1) \<le> s ! (3 * m + 2)" using mono[of "m + 1" "3 * m + 2"] len 4 by simp
    have cd: "s ! (3 * m + 2) \<le> s ! (3 * m + 2 + 1)" using mono[of "3 * m + 2" "3 * m + 2 + 1"] len 4 by simp
    have e: "3 * 3 div 4 = (2::nat)" "3 * 3 mod 4 = (1::nat)" by simp_all
    from ab bc cd show ?thesis by (simp add: 4 e Let_def field_simps)
  qed
qed

lemma quantile_Some_length:
  "quantile q xs = Some v \<Longrightarrow> \<exists>k. length (sort (present xs)) = Suc k"
  by (cases "sort (present xs)") (auto simp: quantile_def Let_def)

lemma quartiles_ordered:
  assumes "quantile 0.25 xs = Some Q1" "quantile 0.75 xs = Some Q3"
  shows "Q1 \<le> Q3"
proof -
  let ?s = "sort (present xs)"
  from quantile_Some_length[OF assms(1)] obtain k where k: "length ?s = Suc k" by blast
  define m where "m = k div 4"
  define r where "r = k mod 4"
  have len: "length ?s = Suc (4 * m + r)" and r: "r < 4" using k by (simp_all add: m_def r_def)
  from quantile_25[OF len r] assms(1)
  have q1: "Q1 = ?s ! m + (?s ! (if r = 0 then m else m + 1) - ?s ! m) * (real r / 4)" by simp
  from quantile_75[OF len r] assms(2)
  have q3: "Q3 = ?s ! (3 * m + 3 * r div 4)
                 + (?s ! (if 3 * r mod 4 = 0 then 3 * m + 3 * r div 4 else 3 * m + 3 * r div 4 + 1)
                    - ?s ! (3 * m + 3 * r div 4)) * (real (3 * r mod 4) / 4)" by simp
  from quartile_facts[OF sorted_sort len r] show ?thesis
    unfolding Let_def q1 q3 by blast
qed


text \<open>In exact arithmetic the lower bound is never above the upper one.\<close>

lemma exact_bounds_ordered:
  assumes "clip_bounds pd0 xs = Some (lower, upper)"
  shows "lower \<le> upper"
proof -
  from assms obtain Q1 Q3 where q: "quantile 0.25 xs = Some Q1" "quantile 0.75 xs = Some Q3"
    and l: "lower = Q1 - 3 * (Q3 - Q1)" and u: "upper = Q3 + 3 * (Q3 - Q1)"
    by (auto simp: clip_bounds_def pd0_def Let_def split: option.splits)
  from quartiles_ordered[OF q] l u show ?thesis by simp
qed


















end
